theory Spec2Isabelle
  imports Complex_Main
begin

section \<open>Data model of the API gateway (init.sql)\<close>

text \<open>
  Identifiers are the UUID strings of the schema. Timestamps are JavaScript
  \<^verbatim>\<open>Date\<close> values, that is integers counting milliseconds; the database clock
  \<^verbatim>\<open>NOW()\<close> and the process clock \<^verbatim>\<open>new Date()\<close> are one parameter \<open>now\<close>.
  The counters are SQL \<^verbatim>\<open>INTEGER\<close> columns read into JavaScript numbers, so they are
  integers here, negative values included. Columns that no modelled query reads or
  writes (names, e-mail addresses, password hashes, generated incident ids) are left out.
\<close>

type_synonym uuid = string
type_synonym timestamp = int

datatype presence = Available | Busy | Offline

datatype task_status = Pending | Queued | Assigned | InProgress | Completed | Failed | Timeout

datatype incident_type = Warning | Violation

datatype role = Admin | Manager | Employee

record employee =
  e_id :: uuid
  e_role :: role
  e_status :: presence
  e_current_task_id :: "uuid option"
  e_tasks_completed :: int
  e_warnings :: int
  e_violations :: int
  e_average_completion_time_seconds :: int
  e_last_heartbeat :: "timestamp option"

record task =
  t_id :: uuid
  t_candidate_id :: uuid
  t_job_id :: uuid
  t_ats_score :: real
  t_status :: task_status
  t_assigned_to :: "uuid option"
  t_assigned_at :: "timestamp option"
  t_due_at :: "timestamp option"
  t_started_at :: "timestamp option"
  t_completed_at :: "timestamp option"
  t_old_resume_url :: "string option"
  t_new_resume_url :: "string option"
  t_missing_keywords :: "string list"
  t_suggestions :: "string list"
  t_notes :: "string option"
  t_retry_count :: int
  t_created_at :: timestamp

record candidate =
  c_id :: uuid
  c_resume_url :: "string option"

record application =
  a_candidate_id :: uuid
  a_job_id :: uuid
  a_task_id :: "uuid option"
  a_resume_used_url :: "string option"
  a_ats_score_at_submission :: real
  a_status :: string
  a_auto_submitted :: bool
  a_submitted_at :: "timestamp option"

record incident =
  i_employee_id :: uuid
  i_type :: incident_type
  i_reason :: string
  i_task_id :: "uuid option"

record activity =
  l_actor_id :: uuid
  l_action :: string
  l_entity_id :: uuid
  l_previous :: int

text \<open>
  The store is the set of tables the gateway's queries touch. A table is the list of its
  rows; \<^verbatim>\<open>jobs\<close> is kept as the list of the job ids, the only column the modelled
  queries read.
\<close>

record store =
  employees :: "employee list"
  ats_tasks :: "task list"
  candidates :: "candidate list"
  jobs :: "uuid list"
  applications :: "application list"
  employee_incidents :: "incident list"
  activity_log :: "activity list"

section \<open>Errors and integer columns\<close>

text \<open>
  \<open>AppError\<close> carries the HTTP status a route handler throws; the other errors are
  raised by the database (a violated foreign key answers 400 through the error handler)
  or stand for an awaited call that rejects. A column of type \<^verbatim>\<open>INTEGER\<close> holds the
  values from \<open>-2147483648\<close> to \<open>2147483647\<close>: a statement that computes or receives a
  value outside this range for such a column raises \<^verbatim>\<open>integer out of range\<close>.
\<close>

datatype call =
    SelectTask | UploadResume | UpdateTask | UpdateCandidate | UpdateEmployee
  | SelectJob | UpsertApplication | PublishCompleted

datatype error =
    AppError int
  | ForeignKeyViolation
  | NumericFieldOverflow
  | IntegerOutOfRange
  | DivisionByZero
  | Rejected call

definition in_int4 :: "int \<Rightarrow> bool" where
  "in_int4 x = (- 2147483648 \<le> x \<and> x \<le> 2147483647)"

section \<open>Timeout checker of the gateway (workers/timeoutChecker.ts)\<close>

definition SLA_MINUTES :: int where
  "SLA_MINUTES = 20"

definition WARNINGS_PER_VIOLATION :: int where
  "WARNINGS_PER_VIOLATION = 3"

definition MAX_VIOLATIONS :: int where
  "MAX_VIOLATIONS = 4"

text \<open>The row type of the overdue query: the task joined with the employee holding it.\<close>

record OverdueTask =
  ot_id :: uuid
  ot_assigned_to :: uuid
  ot_due_at :: timestamp
  ot_employee_warnings :: int
  ot_employee_violations :: int

text \<open>
  Step 2 of \<^verbatim>\<open>handleTimeout\<close>: from the warnings and violations read by the overdue
  query it computes \<^verbatim>\<open>newWarnings\<close>, \<^verbatim>\<open>newViolations\<close>, \<^verbatim>\<open>newStatus\<close> and
  \<^verbatim>\<open>incidentType\<close>.
\<close>

definition timeout_counters :: "int \<Rightarrow> int \<Rightarrow> int \<times> int \<times> presence \<times> incident_type" where
  "timeout_counters employee_warnings employee_violations =
     (let newWarnings = employee_warnings + 1;
          newViolations = employee_violations
      in if newWarnings \<ge> WARNINGS_PER_VIOLATION
         then (let newViolations = newViolations + 1
               in (0, newViolations,
                   (if newViolations \<ge> MAX_VIOLATIONS then Offline else Available),
                   Violation))
         else (newWarnings, newViolations, Available, Warning))"

definition requeue_row :: "task \<Rightarrow> task" where
  "requeue_row t =
     t\<lparr>t_status := Queued, t_assigned_to := None, t_assigned_at := None,
       t_due_at := None, t_started_at := None, t_retry_count := t_retry_count t + 1\<rparr>"

text \<open>
  The body of the transaction of \<^verbatim>\<open>handleTimeout\<close>. The task update raises when
  \<^verbatim>\<open>retry_count + 1\<close> leaves the integer range, the employee update when a new counter
  does, and the incident insert when the employee or the task it names does not exist.
\<close>

definition handleTimeout_transaction :: "store \<Rightarrow> OverdueTask \<Rightarrow> error + store" where
  "handleTimeout_transaction s task =
     (if \<not> list_all (\<lambda>t. t_id t \<noteq> ot_id task \<or> in_int4 (t_retry_count t + 1)) (ats_tasks s)
      then Inl IntegerOutOfRange
      else
       (case timeout_counters (ot_employee_warnings task) (ot_employee_violations task) of
          (newWarnings, newViolations, newStatus, incidentType) \<Rightarrow>
            if \<not> in_int4 newWarnings \<or> \<not> in_int4 newViolations then Inl IntegerOutOfRange
            else if ot_assigned_to task \<notin> set (map e_id (employees s)) \<or>
                    ot_id task \<notin> set (map t_id (ats_tasks s))
            then Inl ForeignKeyViolation
            else
              Inr (s\<lparr>ats_tasks :=
                      map (\<lambda>t. if t_id t = ot_id task then requeue_row t else t) (ats_tasks s),
                    employees :=
                      map (\<lambda>e. if e_id e = ot_assigned_to task
                                then e\<lparr>e_warnings := newWarnings,
                                       e_violations := newViolations,
                                       e_status := newStatus, e_current_task_id := None\<rparr>
                                else e) (employees s),
                    employee_incidents :=
                      employee_incidents s @
                        [\<lparr>i_employee_id = ot_assigned_to task, i_type = incidentType,
                          i_reason = ''Task timeout - exceeded 20 minute SLA'',
                          i_task_id = Some (ot_id task)\<rparr>]\<rparr>)))"

text \<open>
  \<^verbatim>\<open>handleTimeout\<close> runs the body in \<^verbatim>\<open>db.transaction\<close> and catches what it throws:
  on an error the transaction is rolled back and the store is as before.
\<close>

definition handleTimeout :: "store \<Rightarrow> OverdueTask \<Rightarrow> store" where
  "handleTimeout s task =
     (case handleTimeout_transaction s task of Inl err \<Rightarrow> s | Inr s' \<Rightarrow> s')"

text \<open>
  The overdue query: tasks in \<^verbatim>\<open>assigned\<close> or \<^verbatim>\<open>in_progress\<close> whose \<^verbatim>\<open>due_at\<close> is
  before \<open>now\<close>, joined with the employee named by \<^verbatim>\<open>assigned_to\<close>. A null
  \<^verbatim>\<open>due_at\<close> or \<^verbatim>\<open>assigned_to\<close> satisfies neither the comparison nor the join.
\<close>

definition is_overdue :: "timestamp \<Rightarrow> task \<Rightarrow> bool" where
  "is_overdue now t =
     ((t_status t = Assigned \<or> t_status t = InProgress) \<and>
      (case t_due_at t of None \<Rightarrow> False | Some d \<Rightarrow> d < now))"

definition overdue_row :: "task \<Rightarrow> employee \<Rightarrow> OverdueTask list" where
  "overdue_row t e =
     (case t_due_at t of
        None \<Rightarrow> []
      | Some d \<Rightarrow>
          [\<lparr>ot_id = t_id t, ot_assigned_to = e_id e, ot_due_at = d,
            ot_employee_warnings = e_warnings e, ot_employee_violations = e_violations e\<rparr>])"

definition overdue_tasks :: "timestamp \<Rightarrow> store \<Rightarrow> OverdueTask list" where
  "overdue_tasks now s =
     concat (map (\<lambda>t. concat (map (overdue_row t)
                         (filter (\<lambda>e. t_assigned_to t = Some (e_id e)) (employees s))))
                 (filter (is_overdue now) (ats_tasks s)))"

definition checkTimeouts :: "timestamp \<Rightarrow> store \<Rightarrow> store" where
  "checkTimeouts now s = foldl handleTimeout s (overdue_tasks now s)"

section \<open>Task assigner of the gateway (workers/taskAssigner.ts)\<close>

text \<open>
  \<^verbatim>\<open>ORDER BY ... LIMIT 1\<close> returns a row that no other row precedes in the order. Where
  several rows tie on every sort key SQL may return any of them; the model returns the
  one that comes first in the table. \<open>before\<close> is the strict order of the sort keys.
  \<^verbatim>\<open>FOR UPDATE SKIP LOCKED\<close> skips rows locked by a concurrent transaction; the model
  runs one transaction at a time, so no row is skipped.
\<close>

fun order_by_limit_1 :: "('a \<Rightarrow> 'a \<Rightarrow> bool) \<Rightarrow> 'a list \<Rightarrow> 'a option" where
  "order_by_limit_1 before [] = None"
| "order_by_limit_1 before (x # xs) =
     (case order_by_limit_1 before xs of
        None \<Rightarrow> Some x
      | Some y \<Rightarrow> if before y x then Some y else Some x)"

text \<open>Step 1: the queued tasks, joined with their candidate and job, oldest first.\<close>

definition queued_tasks :: "store \<Rightarrow> task list" where
  "queued_tasks s =
     filter (\<lambda>t. t_status t = Queued \<and>
                 t_candidate_id t \<in> set (map c_id (candidates s)) \<and>
                 t_job_id t \<in> set (jobs s))
            (ats_tasks s)"

definition created_before :: "task \<Rightarrow> task \<Rightarrow> bool" where
  "created_before a b = (t_created_at a < t_created_at b)"

text \<open>
  Step 2: the \<^verbatim>\<open>WHERE\<close> clause of the employee query. A null \<^verbatim>\<open>last_heartbeat\<close>
  fails the comparison.
\<close>

definition available_employee :: "timestamp \<Rightarrow> employee \<Rightarrow> bool" where
  "available_employee now e =
     (e_status e = Available \<and> e_violations e < 4 \<and> e_current_task_id e = None \<and>
      (case e_last_heartbeat e of None \<Rightarrow> False | Some h \<Rightarrow> h > now - 5 * 60 * 1000))"

text \<open>\<^verbatim>\<open>ORDER BY tasks_completed ASC, last_heartbeat DESC\<close>, on rows with a heartbeat.\<close>

definition employee_before :: "employee \<Rightarrow> employee \<Rightarrow> bool" where
  "employee_before a b =
     (e_tasks_completed a < e_tasks_completed b \<or>
      (e_tasks_completed a = e_tasks_completed b \<and>
       (case (e_last_heartbeat a, e_last_heartbeat b) of
          (Some x, Some y) \<Rightarrow> x > y
        | _ \<Rightarrow> False)))"

definition next_task :: "store \<Rightarrow> task option" where
  "next_task s = order_by_limit_1 created_before (queued_tasks s)"

definition next_employee :: "timestamp \<Rightarrow> store \<Rightarrow> employee option" where
  "next_employee now s =
     order_by_limit_1 employee_before (filter (available_employee now) (employees s))"

definition assign_row :: "uuid \<Rightarrow> timestamp \<Rightarrow> task \<Rightarrow> task" where
  "assign_row employee_id now t =
     t\<lparr>t_status := Assigned, t_assigned_to := Some employee_id, t_assigned_at := Some now,
       t_due_at := Some (now + SLA_MINUTES * 60 * 1000)\<rparr>"

definition assignNextTask :: "timestamp \<Rightarrow> store \<Rightarrow> store" where
  "assignNextTask now s =
     (case next_task s of
        None \<Rightarrow> s
      | Some task \<Rightarrow>
          (case next_employee now s of
             None \<Rightarrow> s
           | Some employee \<Rightarrow>
               s\<lparr>ats_tasks :=
                   map (\<lambda>t. if t_id t = t_id task then assign_row (e_id employee) now t else t)
                       (ats_tasks s),
                 employees :=
                   map (\<lambda>e. if e_id e = e_id employee
                             then e\<lparr>e_status := Busy, e_current_task_id := Some (t_id task)\<rparr>
                             else e) (employees s)\<rparr>))"

text \<open>
  \<^verbatim>\<open>queueTask\<close>. The column \<^verbatim>\<open>ats_score\<close> is \<^verbatim>\<open>DECIMAL(5,2)\<close>: the database rounds
  the value to two decimals, half away from zero, and rejects a rounded value of
  absolute value 1000 or more. The foreign keys on \<^verbatim>\<open>candidate_id\<close> and \<^verbatim>\<open>job_id\<close>
  reject an insert naming a row that does not exist. \<open>new_id\<close> is the identifier that
  \<^verbatim>\<open>uuid_generate_v4()\<close> gives the new row.
\<close>

definition decimal_5_2 :: "real \<Rightarrow> error + real" where
  "decimal_5_2 x =
     (let r = (if x \<ge> 0 then of_int \<lfloor>x * 100 + 1 / 2\<rfloor> / 100
               else - (of_int \<lfloor>- x * 100 + 1 / 2\<rfloor> / 100))
      in if \<bar>r\<bar> \<ge> 1000 then Inl NumericFieldOverflow else Inr r)"

definition queueTask ::
  "uuid \<Rightarrow> timestamp \<Rightarrow> store \<Rightarrow> uuid \<Rightarrow> uuid \<Rightarrow> real \<Rightarrow> string list \<Rightarrow> string list
     \<Rightarrow> error + (uuid \<times> store)" where
  "queueTask new_id now s candidateId jobId atsScore missingKeywords suggestions =
     (let resumeUrl = (case find (\<lambda>c. c_id c = candidateId) (candidates s) of
                         None \<Rightarrow> None
                       | Some c \<Rightarrow> c_resume_url c)
      in if candidateId \<notin> set (map c_id (candidates s)) \<or> jobId \<notin> set (jobs s)
         then Inl ForeignKeyViolation
         else (case decimal_5_2 atsScore of
                 Inl e \<Rightarrow> Inl e
               | Inr score \<Rightarrow>
                   Inr (new_id,
                        s\<lparr>ats_tasks := ats_tasks s @
                            [\<lparr>t_id = new_id, t_candidate_id = candidateId, t_job_id = jobId,
                              t_ats_score = score, t_status = Queued, t_assigned_to = None,
                              t_assigned_at = None, t_due_at = None, t_started_at = None,
                              t_completed_at = None, t_old_resume_url = resumeUrl,
                              t_new_resume_url = None, t_missing_keywords = missingKeywords,
                              t_suggestions = suggestions, t_notes = None,
                              t_retry_count = 0, t_created_at = now\<rparr>]\<rparr>)))"

section \<open>WebSocket server of the gateway (websocket/server.ts)\<close>

definition updateHeartbeat :: "timestamp \<Rightarrow> store \<Rightarrow> uuid \<Rightarrow> store" where
  "updateHeartbeat now s userId =
     s\<lparr>employees :=
         map (\<lambda>e. if e_id e = userId then e\<lparr>e_last_heartbeat := Some now\<rparr> else e)
             (employees s)\<rparr>"

definition updatePresence :: "timestamp \<Rightarrow> store \<Rightarrow> uuid \<Rightarrow> presence \<Rightarrow> store" where
  "updatePresence now s userId status =
     s\<lparr>employees :=
         map (\<lambda>e. if e_id e = userId
                   then e\<lparr>e_status := status, e_last_heartbeat := Some now\<rparr>
                   else e)
             (employees s)\<rparr>"

text \<open>
  The \<^verbatim>\<open>status\<close> of a \<^verbatim>\<open>PRESENCE_UPDATE\<close> message is any string, or missing; the
  handler acts on it when it is one of the three presence names.
\<close>

definition presence_of :: "string \<Rightarrow> presence option" where
  "presence_of str =
     (if str = ''available'' then Some Available
      else if str = ''busy'' then Some Busy
      else if str = ''offline'' then Some Offline
      else None)"

datatype message =
    HEARTBEAT
  | PRESENCE_UPDATE "string option"
  | TASK_STARTED "uuid option"
  | REQUEST_TASK_INFO
  | Unknown

datatype reply = HEARTBEAT_ACK | PRESENCE_UPDATED presence | CURRENT_TASK "uuid option"

definition handleMessage ::
  "timestamp \<Rightarrow> store \<Rightarrow> uuid \<Rightarrow> message \<Rightarrow> store \<times> reply option" where
  "handleMessage now s userId msg =
     (case msg of
        HEARTBEAT \<Rightarrow> (updateHeartbeat now s userId, Some HEARTBEAT_ACK)
      | PRESENCE_UPDATE status \<Rightarrow>
          (case status of
             None \<Rightarrow> (s, None)
           | Some str \<Rightarrow>
               (case presence_of str of
                  None \<Rightarrow> (s, None)
                | Some p \<Rightarrow> (updatePresence now s userId p, Some (PRESENCE_UPDATED p))))
      | TASK_STARTED taskId \<Rightarrow>
          (case taskId of
             None \<Rightarrow> (s, None)
           | Some tid \<Rightarrow>
               (s\<lparr>ats_tasks :=
                    map (\<lambda>t. if t_id t = tid \<and> t_assigned_to t = Some userId
                              then t\<lparr>t_status := InProgress, t_started_at := Some now\<rparr>
                              else t)
                        (ats_tasks s)\<rparr>, None))
      | REQUEST_TASK_INFO \<Rightarrow>
          (s, Some (CURRENT_TASK
                (case filter (\<lambda>t. t_assigned_to t = Some userId \<and>
                                    (t_status t = Assigned \<or> t_status t = InProgress) \<and>
                                    t_candidate_id t \<in> set (map c_id (candidates s)) \<and>
                                    t_job_id t \<in> set (jobs s)) (ats_tasks s) of
                   [] \<Rightarrow> None
                 | t # _ \<Rightarrow> Some (t_id t))))
      | Unknown \<Rightarrow> (s, None))"

section \<open>Presence route of the gateway (routes/auth.routes.ts)\<close>

text \<open>
  \<^verbatim>\<open>PUT /api/auth/presence\<close>. A status that is missing or not one of the three names
  is answered with 400, and so is \<^verbatim>\<open>available\<close> while the caller's row has a current
  task; otherwise the row takes the status and the time. The result is the answer and
  the store after the request. The Redis calls that follow the update write no table.
\<close>

definition put_presence ::
  "timestamp \<Rightarrow> store \<Rightarrow> uuid \<Rightarrow> string option \<Rightarrow> (error + unit) \<times> store" where
  "put_presence now s userId status =
     (case (case status of None \<Rightarrow> None | Some str \<Rightarrow> presence_of str) of
        None \<Rightarrow> (Inl (AppError 400), s)
      | Some p \<Rightarrow>
          if p = Available \<and>
             (case filter (\<lambda>e. e_id e = userId) (employees s) of
                [] \<Rightarrow> False
              | e # _ \<Rightarrow> e_current_task_id e \<noteq> None)
          then (Inl (AppError 400), s)
          else (Inr (),
                s\<lparr>employees :=
                    map (\<lambda>e. if e_id e = userId
                              then e\<lparr>e_status := p, e_last_heartbeat := Some now\<rparr>
                              else e)
                        (employees s)\<rparr>))"

section \<open>Task routes of the gateway (routes/tasks.routes.ts)\<close>

text \<open>
  \<^verbatim>\<open>POST /api/tasks/:id/complete\<close>. The handler awaits its queries one after the other
  on the pool, outside any transaction, so each statement commits on its own. Any of the
  awaited calls can reject (a connection error, a statement timeout, a failed upload);
  \<open>rejects\<close> says which calls do in the run being modelled, and the handler stops at the
  first rejection with the store as the earlier statements left it. \<open>newResumeUrl\<close> is
  the URL the object store returns for the upload.

  The running average is computed in \<^verbatim>\<open>INTEGER\<close> arithmetic: the product, the sum
  and \<^verbatim>\<open>tasks_completed + 1\<close> raise when they leave the integer range, the division
  truncates toward zero and raises on a zero divisor, and the parameter
  \<^verbatim>\<open>completionTimeSeconds\<close>, typed as an integer by the statement, is refused when it
  is out of range.
\<close>

definition sql_div :: "int \<Rightarrow> int \<Rightarrow> error + int" where
  "sql_div a b =
     (if b = 0 then Inl DivisionByZero
      else if a = - 2147483648 \<and> b = - 1 then Inl IntegerOutOfRange
      else Inr (sgn a * sgn b * (\<bar>a\<bar> div \<bar>b\<bar>)))"

definition new_average :: "employee \<Rightarrow> int \<Rightarrow> error + int" where
  "new_average e completionTimeSeconds =
     (if e_tasks_completed e = 0 then Inr completionTimeSeconds
      else if \<not> in_int4 (e_average_completion_time_seconds e * e_tasks_completed e) \<or>
              \<not> in_int4 (e_average_completion_time_seconds e * e_tasks_completed e
                            + completionTimeSeconds) \<or>
              \<not> in_int4 (e_tasks_completed e + 1)
      then Inl IntegerOutOfRange
      else sql_div (e_average_completion_time_seconds e * e_tasks_completed e
                      + completionTimeSeconds)
                   (e_tasks_completed e + 1))"

definition owned_open_tasks :: "store \<Rightarrow> uuid \<Rightarrow> uuid \<Rightarrow> task list" where
  "owned_open_tasks s taskId userId =
     filter (\<lambda>t. t_id t = taskId \<and> t_assigned_to t = Some userId \<and>
                 (t_status t = Assigned \<or> t_status t = InProgress) \<and>
                 t_candidate_id t \<in> set (map c_id (candidates s)))
            (ats_tasks s)"

definition update_task_completed ::
  "timestamp \<Rightarrow> string \<Rightarrow> string option \<Rightarrow> uuid \<Rightarrow> store \<Rightarrow> store" where
  "update_task_completed now newResumeUrl notes taskId s =
     s\<lparr>ats_tasks :=
         map (\<lambda>t. if t_id t = taskId
                   then t\<lparr>t_status := Completed, t_completed_at := Some now,
                          t_new_resume_url := Some newResumeUrl, t_notes := notes\<rparr>
                   else t)
             (ats_tasks s)\<rparr>"

definition update_candidate_resume :: "string \<Rightarrow> uuid \<Rightarrow> store \<Rightarrow> store" where
  "update_candidate_resume newResumeUrl candidate_id s =
     s\<lparr>candidates :=
         map (\<lambda>c. if c_id c = candidate_id then c\<lparr>c_resume_url := Some newResumeUrl\<rparr> else c)
             (candidates s)\<rparr>"

text \<open>
  The employee update. One row whose average cannot be computed fails the statement,
  and a failed statement changes no row.
\<close>

definition update_employee_row :: "int \<Rightarrow> employee \<Rightarrow> error + employee" where
  "update_employee_row completionTimeSeconds e =
     (if \<not> in_int4 (e_tasks_completed e + 1) then Inl IntegerOutOfRange
      else
       (case new_average e completionTimeSeconds of
          Inl err \<Rightarrow> Inl err
        | Inr avg \<Rightarrow>
            Inr (e\<lparr>e_status := Available, e_current_task_id := None,
                   e_tasks_completed := e_tasks_completed e + 1,
                   e_average_completion_time_seconds := avg\<rparr>)))"

fun update_employee_rows :: "int \<Rightarrow> uuid \<Rightarrow> employee list \<Rightarrow> error + employee list" where
  "update_employee_rows secs userId [] = Inr []"
| "update_employee_rows secs userId (e # es) =
     (if e_id e = userId
      then (case update_employee_row secs e of
              Inl err \<Rightarrow> Inl err
            | Inr e' \<Rightarrow>
                (case update_employee_rows secs userId es of
                   Inl err \<Rightarrow> Inl err
                 | Inr es' \<Rightarrow> Inr (e' # es')))
      else (case update_employee_rows secs userId es of
              Inl err \<Rightarrow> Inl err
            | Inr es' \<Rightarrow> Inr (e # es')))"

definition update_employee :: "int \<Rightarrow> uuid \<Rightarrow> employee list \<Rightarrow> error + employee list" where
  "update_employee completionTimeSeconds userId es =
     (if \<not> in_int4 completionTimeSeconds then Inl IntegerOutOfRange
      else update_employee_rows completionTimeSeconds userId es)"

text \<open>
  The upsert on the unique key \<^verbatim>\<open>(candidate_id, job_id)\<close>: a conflicting row keeps its
  task, score and auto-submitted flag and takes the new URL, status and time.
\<close>

definition upsert_application ::
  "timestamp \<Rightarrow> string \<Rightarrow> uuid \<Rightarrow> task \<Rightarrow> store \<Rightarrow> store" where
  "upsert_application now newResumeUrl taskId task s =
     (if \<exists>a \<in> set (applications s).
            a_candidate_id a = t_candidate_id task \<and> a_job_id a = t_job_id task
      then s\<lparr>applications :=
               map (\<lambda>a. if a_candidate_id a = t_candidate_id task \<and> a_job_id a = t_job_id task
                         then a\<lparr>a_resume_used_url := Some newResumeUrl,
                                a_status := ''submitted'', a_submitted_at := Some now\<rparr>
                         else a)
                   (applications s)\<rparr>
      else s\<lparr>applications := applications s @
               [\<lparr>a_candidate_id = t_candidate_id task, a_job_id = t_job_id task,
                 a_task_id = Some taskId, a_resume_used_url = Some newResumeUrl,
                 a_ats_score_at_submission = t_ats_score task, a_status = ''submitted'',
                 a_auto_submitted = False, a_submitted_at = Some now\<rparr>]\<rparr>)"

record completed =
  r_newResumeUrl :: string
  r_completionTimeSeconds :: int

definition complete ::
  "(call \<Rightarrow> bool) \<Rightarrow> timestamp \<Rightarrow> string \<Rightarrow> store \<Rightarrow> uuid \<Rightarrow> uuid \<Rightarrow> bool \<Rightarrow> string option
     \<Rightarrow> (error + completed) \<times> store" where
  "complete rejects now newResumeUrl s taskId userId file notes =
     (if \<not> file then (Inl (AppError 400), s)
      else if rejects SelectTask then (Inl (Rejected SelectTask), s)
      else (case owned_open_tasks s taskId userId of
        [] \<Rightarrow> (Inl (AppError 404), s)
      | task # _ \<Rightarrow>
         if rejects UploadResume then (Inl (Rejected UploadResume), s)
         else
          (let assignedAt = (case t_assigned_at task of
                               Some a \<Rightarrow> a | None \<Rightarrow> t_created_at task);
               completionTimeSeconds = (now - assignedAt) div 1000
           in if rejects UpdateTask then (Inl (Rejected UpdateTask), s)
              else
               (let s1 = update_task_completed now newResumeUrl notes taskId s
                in if rejects UpdateCandidate then (Inl (Rejected UpdateCandidate), s1)
                   else
                    (let s2 = update_candidate_resume newResumeUrl (t_candidate_id task) s1
                     in if rejects UpdateEmployee then (Inl (Rejected UpdateEmployee), s2)
                        else
                         (case update_employee completionTimeSeconds userId
                                 (employees s2) of
                            Inl err \<Rightarrow> (Inl err, s2)
                          | Inr es \<Rightarrow>
                             (let s3 = s2\<lparr>employees := es\<rparr>
                              in if rejects SelectJob then (Inl (Rejected SelectJob), s3)
                                 else if t_job_id task \<notin> set (jobs s3)
                                 then (if rejects PublishCompleted
                                       then (Inl (Rejected PublishCompleted), s3)
                                       else (Inr \<lparr>r_newResumeUrl = newResumeUrl,
                                                  r_completionTimeSeconds =
                                                    completionTimeSeconds\<rparr>, s3))
                                 else if rejects UpsertApplication
                                 then (Inl (Rejected UpsertApplication), s3)
                                 else
                                  (let s4 = upsert_application now newResumeUrl taskId task s3
                                   in if rejects PublishCompleted
                                      then (Inl (Rejected PublishCompleted), s4)
                                      else (Inr \<lparr>r_newResumeUrl = newResumeUrl,
                                                 r_completionTimeSeconds =
                                                   completionTimeSeconds\<rparr>, s4)))))))))"

section \<open>Employee routes of the gateway (routes/employees.routes.ts)\<close>

text \<open>
  Both reset routes run behind \<^verbatim>\<open>requireRole('admin')\<close>, which answers 403 to any other
  role. \<open>adminId\<close> and \<open>caller_role\<close> are the user id and role of the caller's token.
  The two statements of a route commit one after the other. The audit row names the
  caller in \<^verbatim>\<open>actor_id\<close>, a foreign key to the employee table: when the caller is no
  employee row the insert raises after the update is committed.
\<close>

definition requireRole :: "role list \<Rightarrow> role \<Rightarrow> error + unit" where
  "requireRole roles caller_role =
     (if caller_role \<in> set roles then Inr () else Inl (AppError 403))"

definition reset_warnings :: "store \<Rightarrow> uuid \<Rightarrow> role \<Rightarrow> uuid \<Rightarrow> (error + unit) \<times> store" where
  "reset_warnings s adminId caller_role employeeId =
     (case requireRole [Admin] caller_role of
        Inl err \<Rightarrow> (Inl err, s)
      | Inr _ \<Rightarrow>
          (case filter (\<lambda>e. e_id e = employeeId) (employees s) of
             [] \<Rightarrow> (Inl (AppError 404), s)
           | existing # _ \<Rightarrow>
               (let s1 = s\<lparr>employees :=
                             map (\<lambda>e. if e_id e = employeeId then e\<lparr>e_warnings := 0\<rparr> else e)
                                 (employees s)\<rparr>
                in if adminId \<notin> set (map e_id (employees s1))
                   then (Inl ForeignKeyViolation, s1)
                   else (Inr (),
                         s1\<lparr>activity_log := activity_log s1 @
                              [\<lparr>l_actor_id = adminId, l_action = ''reset_warnings'',
                                l_entity_id = employeeId,
                                l_previous = e_warnings existing\<rparr>]\<rparr>))))"

definition reset_violations :: "store \<Rightarrow> uuid \<Rightarrow> role \<Rightarrow> uuid \<Rightarrow> (error + unit) \<times> store" where
  "reset_violations s adminId caller_role employeeId =
     (case requireRole [Admin] caller_role of
        Inl err \<Rightarrow> (Inl err, s)
      | Inr _ \<Rightarrow>
          (case filter (\<lambda>e. e_id e = employeeId) (employees s) of
             [] \<Rightarrow> (Inl (AppError 404), s)
           | existing # _ \<Rightarrow>
               (let s1 = s\<lparr>employees :=
                             map (\<lambda>e. if e_id e = employeeId
                                       then e\<lparr>e_violations := 0, e_status := Available\<rparr>
                                       else e)
                                 (employees s)\<rparr>
                in if adminId \<notin> set (map e_id (employees s1))
                   then (Inl ForeignKeyViolation, s1)
                   else (Inr (),
                         s1\<lparr>activity_log := activity_log s1 @
                              [\<lparr>l_actor_id = adminId, l_action = ''reset_violations'',
                                l_entity_id = employeeId,
                                l_previous = e_violations existing\<rparr>]\<rparr>))))"

section \<open>The worker service (worker-service/src/index.ts)\<close>

text \<open>
  The worker service addresses the tables through columns that \<^verbatim>\<open>init.sql\<close> does not
  declare (\<^verbatim>\<open>is_active\<close>, \<^verbatim>\<open>last_active\<close>, \<^verbatim>\<open>deadline\<close>,
  \<^verbatim>\<open>original_ats_score\<close>). Everything below describes it on tables that have the
  columns its queries name, with the types and foreign keys \<^verbatim>\<open>init.sql\<close> gives the
  columns it does declare; on the tables of \<^verbatim>\<open>init.sql\<close> as they stand its queries raise
  and each tick is rolled back. The rows are records of exactly the columns the queries
  name. The bookkeeping column \<^verbatim>\<open>updated_at\<close>, the activity log and the published
  notifications are left out.
  \<open>gen\<close> stands for \<^verbatim>\<open>uuid_generate_v4()\<close>: the identifier given to the row inserted
  into a table of \<open>n\<close> rows is \<open>gen n\<close>.
\<close>

record w_employee =
  we_id :: uuid
  we_status :: presence
  we_is_active :: bool
  we_tasks_completed :: int
  we_last_active :: "timestamp option"
  we_warnings :: int
  we_violations :: int

record w_task =
  wt_id :: uuid
  wt_job_id :: uuid
  wt_candidate_id :: uuid
  wt_original_ats_score :: real
  wt_status :: task_status
  wt_assigned_to :: "uuid option"
  wt_assigned_at :: "timestamp option"
  wt_deadline :: "timestamp option"
  wt_created_at :: timestamp

record w_incident =
  wi_employee_id :: uuid
  wi_type :: incident_type
  wi_minutes_overdue :: int
  wi_task_id :: uuid

record w_store =
  w_employees :: "w_employee list"
  w_ats_tasks :: "w_task list"
  w_employee_incidents :: "w_incident list"

definition warningsPerViolation :: int where
  "warningsPerViolation = 3"

definition violationsForSuspension :: int where
  "violationsForSuspension = 4"

text \<open>A row of the worker's overdue query.\<close>

record w_overdue =
  wo_id :: uuid
  wo_assigned_to :: uuid
  wo_deadline :: timestamp
  wo_warnings :: int
  wo_violations :: int

definition w_overdue_row :: "timestamp \<Rightarrow> w_task \<Rightarrow> w_employee \<Rightarrow> w_overdue list" where
  "w_overdue_row now t e =
     (case wt_deadline t of
        None \<Rightarrow> []
      | Some d \<Rightarrow>
          if (wt_status t = Assigned \<or> wt_status t = InProgress) \<and> d < now \<and>
             wt_assigned_to t = Some (we_id e)
          then [\<lparr>wo_id = wt_id t, wo_assigned_to = we_id e, wo_deadline = d,
                 wo_warnings = we_warnings e, wo_violations = we_violations e\<rparr>]
          else [])"

definition w_overdue_tasks :: "timestamp \<Rightarrow> w_store \<Rightarrow> w_overdue list" where
  "w_overdue_tasks now s =
     concat (map (\<lambda>t. concat (map (w_overdue_row now t) (w_employees s))) (w_ats_tasks s))"

text \<open>
  The counters of one iteration of the loop of \<^verbatim>\<open>checkTimeouts\<close>:
  \<^verbatim>\<open>newWarnings\<close>, \<^verbatim>\<open>newViolations\<close>, \<^verbatim>\<open>incidentType\<close> and \<^verbatim>\<open>isActive\<close>.
\<close>

definition w_timeout_counters :: "int \<Rightarrow> int \<Rightarrow> int \<times> int \<times> incident_type \<times> bool" where
  "w_timeout_counters warnings violations =
     (let newWarnings = warnings + 1;
          newViolations = violations;
          incidentType = Warning;
          (newWarnings, newViolations, incidentType) =
            (if newWarnings \<ge> warningsPerViolation
             then (0, newViolations + 1, Violation)
             else (newWarnings, newViolations, incidentType));
          isActive = (if newViolations \<ge> violationsForSuspension then False else True)
      in (newWarnings, newViolations, incidentType, isActive))"

text \<open>
  The requeue of the worker: a new row copying job, candidate and score of every row with
  the given id, status queued, every other column at its default.
\<close>

definition w_clone :: "uuid \<Rightarrow> timestamp \<Rightarrow> w_task \<Rightarrow> w_task" where
  "w_clone new_id now t =
     \<lparr>wt_id = new_id, wt_job_id = wt_job_id t, wt_candidate_id = wt_candidate_id t,
      wt_original_ats_score = wt_original_ats_score t, wt_status = Queued,
      wt_assigned_to = None, wt_assigned_at = None, wt_deadline = None,
      wt_created_at = now\<rparr>"

fun w_insert_clones :: "(nat \<Rightarrow> uuid) \<Rightarrow> timestamp \<Rightarrow> w_task list \<Rightarrow> w_task list \<Rightarrow> w_task list" where
  "w_insert_clones gen now [] table = table"
| "w_insert_clones gen now (t # ts) table =
     w_insert_clones gen now ts (table @ [w_clone (gen (length table)) now t])"

text \<open>
  One iteration of the loop. The employee update raises when a new counter leaves the
  integer range, the incident insert when the employee or the task does not exist.
\<close>

definition w_timeout_step ::
  "(nat \<Rightarrow> uuid) \<Rightarrow> timestamp \<Rightarrow> w_store \<Rightarrow> w_overdue \<Rightarrow> error + w_store" where
  "w_timeout_step gen now s task =
     (let minutesOverdue = (now - wo_deadline task) div 60000;
          tasks1 = map (\<lambda>t. if wt_id t = wo_id task then t\<lparr>wt_status := Timeout\<rparr> else t)
                       (w_ats_tasks s)
      in case w_timeout_counters (wo_warnings task) (wo_violations task) of
           (newWarnings, newViolations, incidentType, isActive) \<Rightarrow>
             if \<not> in_int4 newWarnings \<or> \<not> in_int4 newViolations then Inl IntegerOutOfRange
             else if wo_assigned_to task \<notin> set (map we_id (w_employees s)) \<or>
                     wo_id task \<notin> set (map wt_id (w_ats_tasks s))
             then Inl ForeignKeyViolation
             else
               Inr (s\<lparr>w_employees :=
                       map (\<lambda>e. if we_id e = wo_assigned_to task
                                 then e\<lparr>we_warnings := newWarnings,
                                        we_violations := newViolations,
                                        we_is_active := isActive, we_status := Available\<rparr>
                                 else e) (w_employees s),
                     w_employee_incidents :=
                       w_employee_incidents s @
                         [\<lparr>wi_employee_id = wo_assigned_to task, wi_type = incidentType,
                           wi_minutes_overdue = minutesOverdue, wi_task_id = wo_id task\<rparr>],
                     w_ats_tasks :=
                       w_insert_clones gen now
                         (filter (\<lambda>t. wt_id t = wo_id task) tasks1) tasks1\<rparr>))"

text \<open>
  The loop runs inside one transaction: the first error ends it, and
  \<^verbatim>\<open>checkTimeouts\<close> rolls the whole sweep back.
\<close>

fun w_timeout_loop ::
  "(nat \<Rightarrow> uuid) \<Rightarrow> timestamp \<Rightarrow> w_store \<Rightarrow> w_overdue list \<Rightarrow> error + w_store" where
  "w_timeout_loop gen now s [] = Inr s"
| "w_timeout_loop gen now s (task # tasks) =
     (case w_timeout_step gen now s task of
        Inl err \<Rightarrow> Inl err
      | Inr s' \<Rightarrow> w_timeout_loop gen now s' tasks)"

definition w_checkTimeouts :: "(nat \<Rightarrow> uuid) \<Rightarrow> timestamp \<Rightarrow> w_store \<Rightarrow> w_store" where
  "w_checkTimeouts gen now s =
     (case w_timeout_loop gen now s (w_overdue_tasks now s) of
        Inl err \<Rightarrow> s
      | Inr s' \<Rightarrow> s')"

text \<open>
  \<^verbatim>\<open>ORDER BY ... LIMIT n\<close> is a stable insertion sort on the strict order of the sort
  keys followed by \<open>take\<close>; rows that tie on every key keep their table order.
\<close>

fun insert_by :: "('a \<Rightarrow> 'a \<Rightarrow> bool) \<Rightarrow> 'a \<Rightarrow> 'a list \<Rightarrow> 'a list" where
  "insert_by before x [] = [x]"
| "insert_by before x (y # ys) =
     (if before y x then y # insert_by before x ys else x # y # ys)"

definition order_by :: "('a \<Rightarrow> 'a \<Rightarrow> bool) \<Rightarrow> 'a list \<Rightarrow> 'a list" where
  "order_by before xs = foldr (insert_by before) xs []"

text \<open>The \<^verbatim>\<open>WHERE\<close> clause of the worker's employee query.\<close>

definition w_available :: "w_store \<Rightarrow> w_employee \<Rightarrow> bool" where
  "w_available s e =
     (we_status e = Available \<and> we_is_active e \<and>
      \<not> (\<exists>t \<in> set (w_ats_tasks s).
            wt_assigned_to t = Some (we_id e) \<and>
            (wt_status t = Assigned \<or> wt_status t = InProgress)))"

text \<open>
  \<^verbatim>\<open>ORDER BY e.tasks_completed ASC, e.last_active DESC\<close>; in a descending sort a null
  comes before every value.
\<close>

definition w_employee_before :: "w_employee \<Rightarrow> w_employee \<Rightarrow> bool" where
  "w_employee_before a b =
     (we_tasks_completed a < we_tasks_completed b \<or>
      (we_tasks_completed a = we_tasks_completed b \<and>
       (case (we_last_active a, we_last_active b) of
          (None, Some y) \<Rightarrow> True
        | (Some x, Some y) \<Rightarrow> x > y
        | _ \<Rightarrow> False)))"

definition availableEmployees :: "w_store \<Rightarrow> w_employee list" where
  "availableEmployees s =
     take 10 (order_by w_employee_before (filter (w_available s) (w_employees s)))"

definition queuedTasks :: "w_store \<Rightarrow> nat \<Rightarrow> w_task list" where
  "queuedTasks s n =
     take n (order_by (\<lambda>a b. wt_created_at a < wt_created_at b)
                      (filter (\<lambda>t. wt_status t = Queued) (w_ats_tasks s)))"

definition w_assign_step :: "int \<Rightarrow> timestamp \<Rightarrow> w_store \<Rightarrow> w_task \<times> w_employee \<Rightarrow> w_store" where
  "w_assign_step timeoutMinutes now s pair =
     (case pair of (task, employee) \<Rightarrow>
        s\<lparr>w_ats_tasks :=
            map (\<lambda>t. if wt_id t = wt_id task
                      then t\<lparr>wt_status := Assigned, wt_assigned_to := Some (we_id employee),
                             wt_assigned_at := Some now,
                             wt_deadline := Some (now + timeoutMinutes * 60000)\<rparr>
                      else t) (w_ats_tasks s),
          w_employees :=
            map (\<lambda>e. if we_id e = we_id employee then e\<lparr>we_status := Busy\<rparr> else e)
                (w_employees s)\<rparr>)"

definition assignTasks :: "int \<Rightarrow> timestamp \<Rightarrow> w_store \<Rightarrow> w_store" where
  "assignTasks timeoutMinutes now s =
     (case availableEmployees s of
        [] \<Rightarrow> s
      | _ # _ \<Rightarrow>
          (case queuedTasks s (length (availableEmployees s)) of
             [] \<Rightarrow> s
           | _ # _ \<Rightarrow>
               foldl (w_assign_step timeoutMinutes now) s
                 (zip (queuedTasks s (length (availableEmployees s))) (availableEmployees s))))"

section \<open>Example data\<close>

text \<open>
  One employee holding one task in progress, due at minute 20, with two warnings and two
  violations on record. Times are milliseconds.
\<close>

definition ex_employee :: employee where
  "ex_employee =
     \<lparr>e_id = ''e1'', e_role = Employee, e_status = Busy, e_current_task_id = Some ''t1'',
      e_tasks_completed = 5, e_warnings = 2, e_violations = 2,
      e_average_completion_time_seconds = 600, e_last_heartbeat = Some 1000000\<rparr>"

definition ex_task :: task where
  "ex_task =
     \<lparr>t_id = ''t1'', t_candidate_id = ''c1'', t_job_id = ''j1'', t_ats_score = 82.5,
      t_status = InProgress, t_assigned_to = Some ''e1'', t_assigned_at = Some 0,
      t_due_at = Some 1200000, t_started_at = Some 60000, t_completed_at = None,
      t_old_resume_url = Some ''u1'', t_new_resume_url = None, t_missing_keywords = [],
      t_suggestions = [], t_notes = None, t_retry_count = 4, t_created_at = -5000\<rparr>"

definition ex_store :: store where
  "ex_store =
     \<lparr>employees = [ex_employee], ats_tasks = [ex_task],
      candidates = [\<lparr>c_id = ''c1'', c_resume_url = Some ''u1''\<rparr>], jobs = [''j1''],
      applications = [], employee_incidents = [], activity_log = []\<rparr>"

definition ex_queued :: task where
  "ex_queued =
     \<lparr>t_id = ''t9'', t_candidate_id = ''c1'', t_job_id = ''j1'', t_ats_score = 95 / 100,
      t_status = Queued, t_assigned_to = None, t_assigned_at = None,
      t_due_at = None, t_started_at = None, t_completed_at = None,
      t_old_resume_url = Some ''u1'', t_new_resume_url = None,
      t_missing_keywords = [''Kubernetes''], t_suggestions = [], t_notes = None,
      t_retry_count = 0, t_created_at = 2000000\<rparr>"

text \<open>
  The same situation in the worker service's tables, the row the two overdue queries
  return for it at minute 21.67, and a generator of new identifiers.
\<close>

definition ex_w_employee :: w_employee where
  "ex_w_employee =
     \<lparr>we_id = ''e1'', we_status = Busy, we_is_active = True, we_tasks_completed = 5,
      we_last_active = Some 1000000, we_warnings = 2, we_violations = 2\<rparr>"

definition ex_w_task :: w_task where
  "ex_w_task =
     \<lparr>wt_id = ''t1'', wt_job_id = ''j1'', wt_candidate_id = ''c1'',
      wt_original_ats_score = 82.5, wt_status = InProgress, wt_assigned_to = Some ''e1'',
      wt_assigned_at = Some 0, wt_deadline = Some 1200000, wt_created_at = -5000\<rparr>"

definition ex_w_store :: w_store where
  "ex_w_store =
     \<lparr>w_employees = [ex_w_employee], w_ats_tasks = [ex_w_task], w_employee_incidents = []\<rparr>"

definition ex_gen :: "nat \<Rightarrow> uuid" where
  "ex_gen n = (if n = 1 then ''t2'' else ''t3'')"

definition ex_overdue :: OverdueTask where
  "ex_overdue =
     \<lparr>ot_id = ''t1'', ot_assigned_to = ''e1'', ot_due_at = 1200000,
      ot_employee_warnings = 2, ot_employee_violations = 2\<rparr>"

definition ex_w_overdue :: w_overdue where
  "ex_w_overdue =
     \<lparr>wo_id = ''t1'', wo_assigned_to = ''e1'', wo_deadline = 1200000,
      wo_warnings = 2, wo_violations = 2\<rparr>"

text \<open>
  Stores for the assigner, read at \<open>now = 2100000\<close>: an idle employee with three
  violations whose heartbeat is 200 seconds old, two idle employees that tie on completed
  tasks and differ in their heartbeat, and a queued task, with retry count 0 and 4.
\<close>

definition ex_idle :: employee where
  "ex_idle =
     \<lparr>e_id = ''e2'', e_role = Employee, e_status = Available, e_current_task_id = None,
      e_tasks_completed = 3, e_warnings = 0, e_violations = 3,
      e_average_completion_time_seconds = 500, e_last_heartbeat = Some 1900000\<rparr>"

definition ex_older :: employee where
  "ex_older =
     \<lparr>e_id = ''eb'', e_role = Employee, e_status = Available, e_current_task_id = None,
      e_tasks_completed = 3, e_warnings = 0, e_violations = 0,
      e_average_completion_time_seconds = 500, e_last_heartbeat = Some 2050000\<rparr>"

definition ex_newer :: employee where
  "ex_newer =
     \<lparr>e_id = ''ea'', e_role = Employee, e_status = Available, e_current_task_id = None,
      e_tasks_completed = 3, e_warnings = 0, e_violations = 0,
      e_average_completion_time_seconds = 500, e_last_heartbeat = Some 2090000\<rparr>"

definition ex_waiting_store :: store where
  "ex_waiting_store = ex_store\<lparr>employees := [ex_idle], ats_tasks := [ex_queued]\<rparr>"

definition ex_two_store :: store where
  "ex_two_store = ex_store\<lparr>employees := [ex_older, ex_newer], ats_tasks := [ex_queued]\<rparr>"

definition ex_retry_store :: store where
  "ex_retry_store =
     ex_store\<lparr>employees := [ex_newer], ats_tasks := [ex_queued\<lparr>t_retry_count := 4\<rparr>]\<rparr>"

definition ex_w_idle :: w_employee where
  "ex_w_idle =
     \<lparr>we_id = ''e2'', we_status = Available, we_is_active = True, we_tasks_completed = 3,
      we_last_active = None, we_warnings = 0, we_violations = 3\<rparr>"

definition ex_w_queued :: w_task where
  "ex_w_queued =
     \<lparr>wt_id = ''t9'', wt_job_id = ''j1'', wt_candidate_id = ''c1'',
      wt_original_ats_score = 82.5, wt_status = Queued, wt_assigned_to = None,
      wt_assigned_at = None, wt_deadline = None, wt_created_at = 2000000\<rparr>"

definition ex_w_waiting_store :: w_store where
  "ex_w_waiting_store =
     \<lparr>w_employees = [ex_w_idle], w_ats_tasks = [ex_w_queued], w_employee_incidents = []\<rparr>"

text \<open>
  Two runs of the completion handler: one in which the employee update is rejected, one
  in which no call is.
\<close>

definition ex_rejects :: "call \<Rightarrow> bool" where
  "ex_rejects c = (c = UpdateEmployee)"

definition ex_accepts :: "call \<Rightarrow> bool" where
  "ex_accepts c = False"

text \<open>
  A store in which an admin is one of the employee rows, and the same employee as above
  one promotion away from the fourth violation, with the row the overdue query returns.
\<close>

definition ex_admin :: employee where
  "ex_admin =
     \<lparr>e_id = ''a7'', e_role = Admin, e_status = Available, e_current_task_id = None,
      e_tasks_completed = 0, e_warnings = 0, e_violations = 0,
      e_average_completion_time_seconds = 0, e_last_heartbeat = None\<rparr>"

definition ex_team_store :: store where
  "ex_team_store = ex_store\<lparr>employees := [ex_employee, ex_admin]\<rparr>"

definition ex_third_strike :: OverdueTask where
  "ex_third_strike =
     \<lparr>ot_id = ''t1'', ot_assigned_to = ''e1'', ot_due_at = 1200000,
      ot_employee_warnings = 2, ot_employee_violations = 3\<rparr>"

definition ex_fourth_store :: store where
  "ex_fourth_store = ex_store\<lparr>employees := [ex_employee\<lparr>e_violations := 3\<rparr>]\<rparr>"

text \<open>
  A run that leaves one employee with two open tasks. Employee \<open>e3\<close> completes task
  \<open>t3\<close> at minute 10; the row keeps its assignee and its deadline. The assigner then
  gives \<open>e3\<close> the queued task \<open>t4\<close>, and a \<^verbatim>\<open>TASK_STARTED\<close> message for \<open>t3\<close>,
  which tests the owner and not the status, puts the completed row back to in progress.
\<close>

definition ex_worker :: employee where
  "ex_worker =
     \<lparr>e_id = ''e3'', e_role = Employee, e_status = Busy, e_current_task_id = Some ''t3'',
      e_tasks_completed = 0, e_warnings = 0, e_violations = 0,
      e_average_completion_time_seconds = 0, e_last_heartbeat = Some 590000\<rparr>"

definition ex_first :: task where
  "ex_first =
     \<lparr>t_id = ''t3'', t_candidate_id = ''c1'', t_job_id = ''j1'', t_ats_score = 82.5,
      t_status = InProgress, t_assigned_to = Some ''e3'', t_assigned_at = Some 0,
      t_due_at = Some 1200000, t_started_at = Some 60000, t_completed_at = None,
      t_old_resume_url = Some ''u1'', t_new_resume_url = None, t_missing_keywords = [],
      t_suggestions = [], t_notes = None, t_retry_count = 0, t_created_at = -5000\<rparr>"

definition ex_second :: task where
  "ex_second =
     \<lparr>t_id = ''t4'', t_candidate_id = ''c1'', t_job_id = ''j1'', t_ats_score = 78,
      t_status = Queued, t_assigned_to = None, t_assigned_at = None,
      t_due_at = None, t_started_at = None, t_completed_at = None,
      t_old_resume_url = Some ''u1'', t_new_resume_url = None, t_missing_keywords = [],
      t_suggestions = [], t_notes = None, t_retry_count = 0, t_created_at = 100000\<rparr>"

definition ex_start_store :: store where
  "ex_start_store = ex_store\<lparr>employees := [ex_worker], ats_tasks := [ex_first, ex_second]\<rparr>"

definition ex_double_store :: store where
  "ex_double_store =
     fst (handleMessage 620000
            (assignNextTask 610000
               (snd (complete ex_accepts 600000 ''u2'' ex_start_store ''t3'' ''e3'' True None)))
            ''e3'' (TASK_STARTED (Some ''t3'')))"

section \<open>Admin resets\<close>

lemma reset_frame:
  "list_all2 P xs (map f xs) = (\<forall>x\<in>set xs. P x (f x))"
  by (simp add: list_all2_map2 list_all2_same)

lemma filter_id_Cons:
  "x \<in> set (map f xs) \<Longrightarrow> \<exists>e es. filter (\<lambda>e. f e = x) xs = e # es"
  by (cases "filter (\<lambda>e. f e = x) xs") (auto simp: filter_empty_conv)

lemma ids_after_update:
  assumes "\<And>e. e_id (g e) = e_id e"
  shows "map e_id (map (\<lambda>e. if e_id e = k then g e else e) es) = map e_id es"
  by (induction es) (simp_all add: assms)

lemma reset_violations_eq:
  assumes "filter (\<lambda>e. e_id e = employeeId) (employees s) = e # es"
  shows "reset_violations s adminId Admin employeeId =
     (if adminId \<in> set (map e_id (employees s))
      then (Inr (),
            s\<lparr>employees := map (\<lambda>e. if e_id e = employeeId
                                      then e\<lparr>e_violations := 0, e_status := Available\<rparr>
                                      else e) (employees s),
              activity_log := activity_log s @
                [\<lparr>l_actor_id = adminId, l_action = ''reset_violations'',
                  l_entity_id = employeeId, l_previous = e_violations e\<rparr>]\<rparr>)
      else (Inl ForeignKeyViolation,
            s\<lparr>employees := map (\<lambda>e. if e_id e = employeeId
                                      then e\<lparr>e_violations := 0, e_status := Available\<rparr>
                                      else e) (employees s)\<rparr>))"
proof -
  have "map e_id (map (\<lambda>e. if e_id e = employeeId
            then (\<lambda>e. e\<lparr>e_violations := 0, e_status := Available\<rparr>) e else e) (employees s)) =
        map e_id (employees s)"
    by (rule ids_after_update) simp
  hence m: "set (map e_id (map (\<lambda>e. if e_id e = employeeId
            then e\<lparr>e_violations := 0, e_status := Available\<rparr> else e) (employees s))) =
        set (map e_id (employees s))" by simp
  show ?thesis
    unfolding reset_violations_def requireRole_def Let_def assms
    by (simp del: set_map map_map add: m)
qed

lemma reset_warnings_eq:
  assumes "filter (\<lambda>e. e_id e = employeeId) (employees s) = e # es"
  shows "reset_warnings s adminId Admin employeeId =
     (if adminId \<in> set (map e_id (employees s))
      then (Inr (),
            s\<lparr>employees := map (\<lambda>e. if e_id e = employeeId then e\<lparr>e_warnings := 0\<rparr> else e)
                               (employees s),
              activity_log := activity_log s @
                [\<lparr>l_actor_id = adminId, l_action = ''reset_warnings'',
                  l_entity_id = employeeId, l_previous = e_warnings e\<rparr>]\<rparr>)
      else (Inl ForeignKeyViolation,
            s\<lparr>employees := map (\<lambda>e. if e_id e = employeeId then e\<lparr>e_warnings := 0\<rparr> else e)
                               (employees s)\<rparr>))"
proof -
  have "map e_id (map (\<lambda>e. if e_id e = employeeId
            then (\<lambda>e. e\<lparr>e_warnings := 0\<rparr>) e else e) (employees s)) =
        map e_id (employees s)"
    by (rule ids_after_update) simp
  hence m: "set (map e_id (map (\<lambda>e. if e_id e = employeeId
            then e\<lparr>e_warnings := 0\<rparr> else e) (employees s))) =
        set (map e_id (employees s))" by simp
  show ?thesis
    unfolding reset_warnings_def requireRole_def Let_def assms
    by (simp del: set_map map_map add: m)
qed

text \<open>
  C10. For every existing employee row, \<^verbatim>\<open>reset-violations\<close> called by an admin sets
  violations to 0 and status to available whatever the row held before (a current task,
  an offline status), and leaves warnings and the current task as they were;
  \<^verbatim>\<open>reset-warnings\<close> sets warnings to 0 and leaves violations, status and the current
  task as they were. Rows of other employees and the task table are unchanged. The reset
  is committed before the audit row is written: when the caller is an employee row the
  route succeeds and appends one audit row naming the caller and the employee; when the
  caller is no employee row the foreign key on the actor rejects the audit row, the route
  fails, and the reset stays.
\<close>

theorem C10_reset_routes:
  assumes "employeeId \<in> set (map e_id (employees s))"
  shows
    "list_all2 (\<lambda>old new.
          if e_id old = employeeId
          then e_violations new = 0 \<and> e_status new = Available \<and>
               e_warnings new = e_warnings old \<and>
               e_current_task_id new = e_current_task_id old \<and>
               e_id new = e_id old
          else new = old)
        (employees s) (employees (snd (reset_violations s adminId Admin employeeId))) \<and>
     list_all2 (\<lambda>old new.
          if e_id old = employeeId
          then e_warnings new = 0 \<and> e_violations new = e_violations old \<and>
               e_status new = e_status old \<and>
               e_current_task_id new = e_current_task_id old \<and>
               e_id new = e_id old
          else new = old)
        (employees s) (employees (snd (reset_warnings s adminId Admin employeeId))) \<and>
     ats_tasks (snd (reset_violations s adminId Admin employeeId)) = ats_tasks s \<and>
     ats_tasks (snd (reset_warnings s adminId Admin employeeId)) = ats_tasks s \<and>
     (adminId \<in> set (map e_id (employees s)) \<longrightarrow>
        fst (reset_violations s adminId Admin employeeId) = Inr () \<and>
        fst (reset_warnings s adminId Admin employeeId) = Inr () \<and>
        (\<exists>a. activity_log (snd (reset_violations s adminId Admin employeeId)) =
               activity_log s @ [a] \<and>
             l_actor_id a = adminId \<and> l_action a = ''reset_violations'' \<and>
             l_entity_id a = employeeId) \<and>
        (\<exists>a. activity_log (snd (reset_warnings s adminId Admin employeeId)) =
               activity_log s @ [a] \<and>
             l_actor_id a = adminId \<and> l_action a = ''reset_warnings'' \<and>
             l_entity_id a = employeeId)) \<and>
     (adminId \<notin> set (map e_id (employees s)) \<longrightarrow>
        fst (reset_violations s adminId Admin employeeId) = Inl ForeignKeyViolation \<and>
        fst (reset_warnings s adminId Admin employeeId) = Inl ForeignKeyViolation \<and>
        activity_log (snd (reset_violations s adminId Admin employeeId)) = activity_log s \<and>
        activity_log (snd (reset_warnings s adminId Admin employeeId)) = activity_log s)"
proof -
  from filter_id_Cons [OF assms]
  obtain e es where f: "filter (\<lambda>e. e_id e = employeeId) (employees s) = e # es"
    by auto
  show ?thesis
    by (simp add: reset_violations_eq [OF f] reset_warnings_eq [OF f] reset_frame)
qed

text \<open>
  Both routes on a store holding the admin \<open>a7\<close> and the employee \<open>e1\<close>, who is
  busy with a task, and \<^verbatim>\<open>reset-violations\<close> called with an actor that is no employee.
\<close>

theorem C10_reset_routes_witness:
  "''e1'' \<in> set (map e_id (employees ex_team_store)) \<and>
   ''a7'' \<in> set (map e_id (employees ex_team_store)) \<and>
   ''zz'' \<notin> set (map e_id (employees ex_team_store)) \<and>
   reset_violations ex_team_store ''a7'' Admin ''e1'' =
     (Inr (),
      ex_team_store\<lparr>
        employees := [ex_employee\<lparr>e_violations := 0, e_status := Available\<rparr>, ex_admin],
        activity_log := [\<lparr>l_actor_id = ''a7'', l_action = ''reset_violations'',
                          l_entity_id = ''e1'', l_previous = 2\<rparr>]\<rparr>) \<and>
   reset_warnings ex_team_store ''a7'' Admin ''e1'' =
     (Inr (),
      ex_team_store\<lparr>
        employees := [ex_employee\<lparr>e_warnings := 0\<rparr>, ex_admin],
        activity_log := [\<lparr>l_actor_id = ''a7'', l_action = ''reset_warnings'',
                          l_entity_id = ''e1'', l_previous = 2\<rparr>]\<rparr>) \<and>
   reset_violations ex_team_store ''zz'' Admin ''e1'' =
     (Inl ForeignKeyViolation,
      ex_team_store\<lparr>
        employees := [ex_employee\<lparr>e_violations := 0, e_status := Available\<rparr>, ex_admin]\<rparr>)"
proof -
  have h: "''e1'' \<in> set (map e_id (employees ex_team_store))"
    "''a7'' \<in> set (map e_id (employees ex_team_store))"
    "''zz'' \<notin> set (map e_id (employees ex_team_store))"
    by (simp_all add: ex_team_store_def ex_store_def ex_employee_def ex_admin_def)
  from C10_reset_routes [OF h(1), of "''a7''"] C10_reset_routes [OF h(1), of "''zz''"] h
  show ?thesis
    by (simp add: reset_violations_def reset_warnings_def requireRole_def Let_def
        ex_team_store_def ex_store_def ex_employee_def ex_admin_def)
qed

section \<open>Presence changes\<close>

text \<open>
  C8, as the code has it by design. The presence route rejects a request for available
  while the caller's row holds a current task, and rejects a missing or unknown status,
  both with status code 400 and without writing. Every other request is applied, whatever
  the caller's warnings, violations or present status: the caller's status becomes the
  requested one and the heartbeat the present time, all other columns, all other rows and
  the task table stay, and the \<^verbatim>\<open>PRESENCE_UPDATE\<close> message of the WebSocket gives the
  same store and answers \<^verbatim>\<open>PRESENCE_UPDATED\<close>. The employee table has no active flag and
  no route has a suspended error.
\<close>

theorem C8_presence_requests:
  "((\<exists>e rest. filter (\<lambda>e. e_id e = userId) (employees s) = e # rest \<and>
              e_current_task_id e \<noteq> None) \<longrightarrow>
      put_presence now s userId (Some ''available'') = (Inl (AppError 400), s)) \<and>
   ((case status of None \<Rightarrow> None | Some str \<Rightarrow> presence_of str) = None \<longrightarrow>
      put_presence now s userId status = (Inl (AppError 400), s)) \<and>
   (presence_of str = Some p \<and>
    (p = Available \<longrightarrow>
       (\<forall>e\<in>set (employees s). e_id e = userId \<longrightarrow> e_current_task_id e = None)) \<longrightarrow>
      (\<exists>s'. put_presence now s userId (Some str) = (Inr (), s') \<and>
            handleMessage now s userId (PRESENCE_UPDATE (Some str)) =
              (s', Some (PRESENCE_UPDATED p)) \<and>
            list_all2 (\<lambda>old new.
                if e_id old = userId
                then e_status new = p \<and> e_last_heartbeat new = Some now \<and>
                     e_current_task_id new = e_current_task_id old \<and>
                     e_warnings new = e_warnings old \<and>
                     e_violations new = e_violations old \<and>
                     e_tasks_completed new = e_tasks_completed old \<and>
                     e_id new = e_id old
                else new = old) (employees s) (employees s') \<and>
            ats_tasks s' = ats_tasks s))"
proof (intro conjI impI)
  assume "\<exists>e rest. filter (\<lambda>e. e_id e = userId) (employees s) = e # rest \<and>
              e_current_task_id e \<noteq> None"
  then show "put_presence now s userId (Some ''available'') = (Inl (AppError 400), s)"
    by (auto simp: put_presence_def presence_of_def)
next
  assume "(case status of None \<Rightarrow> None | Some str \<Rightarrow> presence_of str) = None"
  then show "put_presence now s userId status = (Inl (AppError 400), s)"
    by (simp add: put_presence_def)
next
  assume a: "presence_of str = Some p \<and>
    (p = Available \<longrightarrow>
       (\<forall>e\<in>set (employees s). e_id e = userId \<longrightarrow> e_current_task_id e = None))"
  have g: "\<not> (p = Available \<and>
             (case filter (\<lambda>e. e_id e = userId) (employees s) of
                [] \<Rightarrow> False
              | e # _ \<Rightarrow> e_current_task_id e \<noteq> None))"
  proof (cases "filter (\<lambda>e. e_id e = userId) (employees s)")
    case Nil
    then show ?thesis by simp
  next
    case (Cons e es)
    hence "e \<in> set (filter (\<lambda>e. e_id e = userId) (employees s))" by simp
    hence "e \<in> set (employees s)" "e_id e = userId" by simp_all
    with a Cons show ?thesis by auto
  qed
  from a have p: "presence_of str = Some p" by simp
  have r: "put_presence now s userId (Some str) =
      (Inr (), s\<lparr>employees :=
               map (\<lambda>e. if e_id e = userId
                         then e\<lparr>e_status := p, e_last_heartbeat := Some now\<rparr> else e)
                   (employees s)\<rparr>)"
    unfolding put_presence_def using g p by simp
  show "\<exists>s'. put_presence now s userId (Some str) = (Inr (), s') \<and>
            handleMessage now s userId (PRESENCE_UPDATE (Some str)) =
              (s', Some (PRESENCE_UPDATED p)) \<and>
            list_all2 (\<lambda>old new.
                if e_id old = userId
                then e_status new = p \<and> e_last_heartbeat new = Some now \<and>
                     e_current_task_id new = e_current_task_id old \<and>
                     e_warnings new = e_warnings old \<and>
                     e_violations new = e_violations old \<and>
                     e_tasks_completed new = e_tasks_completed old \<and>
                     e_id new = e_id old
                else new = old) (employees s) (employees s') \<and>
            ats_tasks s' = ats_tasks s"
    by (simp add: r p handleMessage_def updatePresence_def reset_frame)
qed

text \<open>
  The busy employee of the example asks for available, for an unknown status and for
  offline.
\<close>

theorem C8_presence_requests_witness:
  "((filter (\<lambda>e. e_id e = ''e1'') (employees ex_store) = ex_employee # [] \<and>
     e_current_task_id ex_employee \<noteq> None) \<and>
    (case Some ''away'' of None \<Rightarrow> None | Some str \<Rightarrow> presence_of str) = None \<and>
    presence_of ''offline'' = Some Offline) \<and>
   put_presence 1300000 ex_store ''e1'' (Some ''available'') =
     (Inl (AppError 400), ex_store) \<and>
   put_presence 1300000 ex_store ''e1'' (Some ''away'') = (Inl (AppError 400), ex_store) \<and>
   put_presence 1300000 ex_store ''e1'' (Some ''offline'') =
     (Inr (), ex_store\<lparr>employees :=
        [ex_employee\<lparr>e_status := Offline, e_last_heartbeat := Some 1300000\<rparr>]\<rparr>) \<and>
   handleMessage 1300000 ex_store ''e1'' (PRESENCE_UPDATE (Some ''offline'')) =
     (ex_store\<lparr>employees :=
        [ex_employee\<lparr>e_status := Offline, e_last_heartbeat := Some 1300000\<rparr>]\<rparr>,
      Some (PRESENCE_UPDATED Offline))"
proof -
  have h: "filter (\<lambda>e. e_id e = ''e1'') (employees ex_store) = ex_employee # [] \<and>
     e_current_task_id ex_employee \<noteq> None"
    "(case Some ''away'' of None \<Rightarrow> None | Some str \<Rightarrow> presence_of str) = None"
    "presence_of ''offline'' = Some Offline"
    by (simp_all add: presence_of_def ex_store_def ex_employee_def)
  from C8_presence_requests [where userId = "''e1''" and s = ex_store and now = 1300000
      and status = "Some ''away''" and str = "''offline''" and p = Offline] h
  show ?thesis
    by (simp add: put_presence_def handleMessage_def updatePresence_def presence_of_def
        ex_store_def ex_employee_def)
qed

lemmas timeout_defs =
  handleTimeout_def handleTimeout_transaction_def timeout_counters_def requeue_row_def
  WARNINGS_PER_VIOLATION_def MAX_VIOLATIONS_def in_int4_def Let_def

text \<open>
  The claim fails for a locked reviewer. The fourth violation sets the employee offline
  and clears the current task; the request for available that follows is accepted and
  the employee is available again, with four violations.
\<close>

theorem C8_locked_reviewer_counterexample:
  "employees (handleTimeout ex_fourth_store ex_third_strike) =
     [ex_employee\<lparr>e_warnings := 0, e_violations := 4, e_status := Offline,
        e_current_task_id := None\<rparr>] \<and>
   put_presence 1400000 (handleTimeout ex_fourth_store ex_third_strike) ''e1''
       (Some ''available'') =
     (Inr (), (handleTimeout ex_fourth_store ex_third_strike)
            \<lparr>employees :=
               [ex_employee\<lparr>e_warnings := 0, e_violations := 4, e_status := Available,
                  e_current_task_id := None, e_last_heartbeat := Some 1400000\<rparr>]\<rparr>)"
  by (simp add: put_presence_def presence_of_def timeout_defs
      ex_fourth_store_def ex_third_strike_def ex_store_def ex_employee_def ex_task_def)

text \<open>
  The two presence paths differ where the caller holds a task: the route answers 400,
  the WebSocket message sets the status to available.
\<close>

lemma websocket_presence_unguarded:
  "put_presence 1300000 ex_store ''e1'' (Some ''available'') =
     (Inl (AppError 400), ex_store) \<and>
   handleMessage 1300000 ex_store ''e1'' (PRESENCE_UPDATE (Some ''available'')) =
     (ex_store\<lparr>employees :=
        [ex_employee\<lparr>e_status := Available, e_last_heartbeat := Some 1300000\<rparr>]\<rparr>,
      Some (PRESENCE_UPDATED Available))"
  by (simp add: put_presence_def handleMessage_def updatePresence_def presence_of_def
      ex_store_def ex_employee_def)

section \<open>Queueing a task\<close>

lemma decimal_5_2_close:
  assumes "0 \<le> x" "x \<le> 100"
  shows "\<exists>r. decimal_5_2 x = Inr r \<and> \<bar>r - x\<bar> \<le> 1 / 200 \<and> 0 \<le> r \<and> r \<le> 100"
proof -
  define n where "n = \<lfloor>x * 100 + 1 / 2\<rfloor>"
  have lo: "of_int n \<le> x * 100 + 1 / 2" unfolding n_def by (rule of_int_floor_le)
  have hi: "x * 100 + 1 / 2 < of_int n + 1" unfolding n_def by linarith
  have n0: "0 \<le> n" unfolding n_def using assms by simp
  have "x * 100 + 1 / 2 < 10001" using assms by linarith
  hence "n < 10001" unfolding n_def by (simp add: floor_less_iff)
  hence n1: "n \<le> 10000" by simp
  hence n1': "(of_int n :: real) \<le> 10000" by (metis of_int_le_iff of_int_numeral)
  have n0': "(0::real) \<le> of_int n" using n0 by simp
  have r: "decimal_5_2 x = Inr (of_int n / 100)"
    using assms n0' n1' by (simp add: decimal_5_2_def n_def Let_def abs_if)
  have c: "\<bar>of_int n / 100 - x\<bar> \<le> 1 / 200"
    using lo hi by linarith
  have b: "(0::real) \<le> of_int n / 100" "of_int n / 100 \<le> (100::real)"
    using n0' n1' by simp_all
  show ?thesis
  proof (intro exI conjI)
    show "decimal_5_2 x = Inr (of_int n / 100)" by (rule r)
  qed (rule c b)+
qed

text \<open>
  C4, as the code has it. \<^verbatim>\<open>queueTask\<close> compares the score with no threshold. For an
  existing candidate and job and any score from 0 to 100 it succeeds, and appends exactly
  one row: status queued, the new id, no assignee, retry count 0, and the score rounded to
  two decimals. Whenever it succeeds, the task table is the old one followed by that one
  queued row.
\<close>

theorem C4_queueTask_no_threshold:
  "(candidateId \<in> set (map c_id (candidates s)) \<and> jobId \<in> set (jobs s) \<and>
    0 \<le> atsScore \<and> atsScore \<le> 100 \<longrightarrow>
      (\<exists>s' t. queueTask new_id now s candidateId jobId atsScore missingKeywords suggestions =
              Inr (new_id, s') \<and> ats_tasks s' = ats_tasks s @ [t] \<and>
           employees s' = employees s \<and>
           t_id t = new_id \<and> t_status t = Queued \<and>
           t_candidate_id t = candidateId \<and> t_job_id t = jobId \<and>
           \<bar>t_ats_score t - atsScore\<bar> \<le> 1 / 200 \<and>
           t_assigned_to t = None \<and> t_retry_count t = 0)) \<and>
   (\<forall>tid s'. queueTask new_id now s candidateId jobId atsScore missingKeywords suggestions =
              Inr (tid, s') \<longrightarrow>
      (\<exists>t. ats_tasks s' = ats_tasks s @ [t] \<and> t_status t = Queued \<and> t_id t = tid \<and>
           decimal_5_2 atsScore = Inr (t_ats_score t)))"
proof (intro conjI impI allI)
  assume a: "candidateId \<in> set (map c_id (candidates s)) \<and> jobId \<in> set (jobs s) \<and>
    0 \<le> atsScore \<and> atsScore \<le> 100"
  then obtain r where r: "decimal_5_2 atsScore = Inr r" "\<bar>r - atsScore\<bar> \<le> 1 / 200"
    using decimal_5_2_close by blast
  show "\<exists>s' t. queueTask new_id now s candidateId jobId atsScore missingKeywords suggestions =
              Inr (new_id, s') \<and> ats_tasks s' = ats_tasks s @ [t] \<and>
           employees s' = employees s \<and>
           t_id t = new_id \<and> t_status t = Queued \<and>
           t_candidate_id t = candidateId \<and> t_job_id t = jobId \<and>
           \<bar>t_ats_score t - atsScore\<bar> \<le> 1 / 200 \<and>
           t_assigned_to t = None \<and> t_retry_count t = 0"
    using a r by (simp add: queueTask_def Let_def)
next
  fix tid s'
  assume "queueTask new_id now s candidateId jobId atsScore missingKeywords suggestions =
              Inr (tid, s')"
  then show "\<exists>t. ats_tasks s' = ats_tasks s @ [t] \<and> t_status t = Queued \<and> t_id t = tid \<and>
           decimal_5_2 atsScore = Inr (t_ats_score t)"
    by (auto simp: queueTask_def Let_def split: if_splits sum.splits)
qed

text \<open>The claim fails at the score 0.95: the task is queued.\<close>

theorem C4_queueTask_counterexample:
  "(95 / 100 :: real) \<ge> 90 / 100 \<and>
   queueTask ''t9'' 2000000 ex_store ''c1'' ''j1'' (95 / 100) [''Kubernetes''] [] =
     Inr (''t9'', ex_store\<lparr>ats_tasks := [ex_task, ex_queued]\<rparr>)"
  by (simp add: queueTask_def decimal_5_2_def Let_def ex_store_def ex_queued_def)

theorem C4_queueTask_no_threshold_witness:
  "(''c1'' \<in> set (map c_id (candidates ex_store)) \<and> ''j1'' \<in> set (jobs ex_store) \<and>
    (0::real) \<le> 95 \<and> (95::real) \<le> 100) \<and>
   queueTask ''t9'' 2000000 ex_store ''c1'' ''j1'' 95 [''Kubernetes''] [] =
     Inr (''t9'', ex_store\<lparr>ats_tasks := [ex_task, ex_queued\<lparr>t_ats_score := 95\<rparr>]\<rparr>)"
proof -
  have h: "''c1'' \<in> set (map c_id (candidates ex_store)) \<and> ''j1'' \<in> set (jobs ex_store) \<and>
    (0::real) \<le> 95 \<and> (95::real) \<le> 100"
    by (simp add: ex_store_def)
  from C4_queueTask_no_threshold [of "''c1''" ex_store "''j1''" 95 "''t9''" 2000000
      "[''Kubernetes'']" "[]"] h
  show ?thesis
    by (simp add: queueTask_def decimal_5_2_def Let_def ex_store_def ex_queued_def)
qed

section \<open>Deadline expiry\<close>

lemmas run_defs =
  complete_def owned_open_tasks_def update_task_completed_def update_candidate_resume_def
  update_employee_def update_employee_row_def new_average_def sql_div_def
  upsert_application_def
  assignNextTask_def next_task_def next_employee_def queued_tasks_def available_employee_def
  employee_before_def created_before_def assign_row_def SLA_MINUTES_def
  handleMessage_def

lemma ex_double_store_eq:
  "ex_double_store =
     ex_store\<lparr>
       employees :=
         [ex_worker\<lparr>e_status := Busy, e_current_task_id := Some ''t4'',
            e_tasks_completed := 1, e_average_completion_time_seconds := 600\<rparr>],
       ats_tasks :=
         [ex_first\<lparr>t_status := InProgress, t_started_at := Some 620000,
            t_completed_at := Some 600000, t_new_resume_url := Some ''u2''\<rparr>,
          ex_second\<lparr>t_status := Assigned, t_assigned_to := Some ''e3'',
            t_assigned_at := Some 610000, t_due_at := Some 1810000\<rparr>],
       candidates := [\<lparr>c_id = ''c1'', c_resume_url = Some ''u2''\<rparr>],
       applications :=
         [\<lparr>a_candidate_id = ''c1'', a_job_id = ''j1'', a_task_id = Some ''t3'',
           a_resume_used_url = Some ''u2'', a_ats_score_at_submission = 82.5,
           a_status = ''submitted'', a_auto_submitted = False,
           a_submitted_at = Some 600000\<rparr>]\<rparr>"
  by (simp add: ex_double_store_def run_defs in_int4_def Let_def ex_start_store_def ex_store_def
      ex_worker_def ex_first_def ex_second_def ex_accepts_def)

lemma ex_double_overdue:
  "overdue_tasks 1900000 ex_double_store =
     [\<lparr>ot_id = ''t3'', ot_assigned_to = ''e3'', ot_due_at = 1200000,
       ot_employee_warnings = 0, ot_employee_violations = 0\<rparr>,
      \<lparr>ot_id = ''t4'', ot_assigned_to = ''e3'', ot_due_at = 1810000,
       ot_employee_warnings = 0, ot_employee_violations = 0\<rparr>]"
  by (simp add: ex_double_store_eq overdue_tasks_def overdue_row_def is_overdue_def
      ex_store_def ex_worker_def ex_first_def ex_second_def)

text \<open>
  C2 fails on the code for a reviewer holding two expired tasks. In the store reached by
  the run above, \<open>e3\<close> has no warnings and no violations and holds \<open>t3\<close>, due at minute
  20, and \<open>t4\<close>, due at minute 30.17. The sweep of the timeout checker at minute 31.67
  reads the counters once, in the overdue query, as 0 and 0 on both rows. Each expiry
  computes warnings 1 from that reading: after the sweep both tasks are queued again and
  two warning incidents are recorded, while the reviewer's warnings counter is 1, not 2.
\<close>

theorem C2_two_expired_tasks:
  "map e_warnings (employees ex_double_store) = [0] \<and>
   map e_violations (employees ex_double_store) = [0] \<and>
   map t_assigned_to (ats_tasks ex_double_store) = [Some ''e3'', Some ''e3''] \<and>
   map t_status (ats_tasks ex_double_store) = [InProgress, Assigned] \<and>
   map t_due_at (ats_tasks ex_double_store) = [Some 1200000, Some 1810000] \<and>
   map e_warnings (employees (checkTimeouts 1900000 ex_double_store)) = [1] \<and>
   map e_violations (employees (checkTimeouts 1900000 ex_double_store)) = [0] \<and>
   map i_type (employee_incidents (checkTimeouts 1900000 ex_double_store)) =
     [Warning, Warning] \<and>
   map i_task_id (employee_incidents (checkTimeouts 1900000 ex_double_store)) =
     [Some ''t3'', Some ''t4''] \<and>
   map t_status (ats_tasks (checkTimeouts 1900000 ex_double_store)) = [Queued, Queued]"
  by (simp add: checkTimeouts_def ex_double_overdue)
     (simp add: ex_double_store_eq timeout_defs ex_store_def ex_worker_def ex_first_def
        ex_second_def)

lemma ex_overdue_tasks: "overdue_tasks 1300000 ex_store = [ex_overdue]"
  by (simp add: overdue_tasks_def overdue_row_def is_overdue_def ex_store_def ex_task_def
      ex_employee_def ex_overdue_def)

lemma ex_w_overdue_tasks: "w_overdue_tasks 1300000 ex_w_store = [ex_w_overdue]"
  by (simp add: w_overdue_tasks_def w_overdue_row_def ex_w_store_def ex_w_task_def
      ex_w_employee_def ex_w_overdue_def)

lemma timeout_counters_cases:
  "timeout_counters w v =
     (if w < 2 then (w + 1, v, Available, Warning)
      else (0, v + 1, (if 3 \<le> v then Offline else Available), Violation))"
  by (simp add: timeout_counters_def WARNINGS_PER_VIOLATION_def MAX_VIOLATIONS_def Let_def)

lemma w_timeout_counters_cases:
  "w_timeout_counters w v =
     (if w < 2 then (w + 1, v, Warning, v < 4)
      else (0, v + 1, Violation, v < 3))"
  by (auto simp: w_timeout_counters_def warningsPerViolation_def violationsForSuspension_def
      Let_def)

lemma handleTimeout_commits:
  assumes "\<forall>t\<in>set (ats_tasks s). t_id t = ot_id task \<longrightarrow> in_int4 (t_retry_count t + 1)"
    and "timeout_counters (ot_employee_warnings task) (ot_employee_violations task) =
           (newWarnings, newViolations, newStatus, incidentType)"
    and "in_int4 newWarnings" "in_int4 newViolations"
    and "ot_assigned_to task \<in> set (map e_id (employees s))"
    and "ot_id task \<in> set (map t_id (ats_tasks s))"
  shows "handleTimeout s task =
     s\<lparr>ats_tasks :=
         map (\<lambda>t. if t_id t = ot_id task then requeue_row t else t) (ats_tasks s),
       employees :=
         map (\<lambda>e. if e_id e = ot_assigned_to task
                   then e\<lparr>e_warnings := newWarnings, e_violations := newViolations,
                          e_status := newStatus, e_current_task_id := None\<rparr>
                   else e) (employees s),
       employee_incidents :=
         employee_incidents s @
           [\<lparr>i_employee_id = ot_assigned_to task, i_type = incidentType,
             i_reason = ''Task timeout - exceeded 20 minute SLA'',
             i_task_id = Some (ot_id task)\<rparr>]\<rparr>"
  using assms
  by (simp add: handleTimeout_def handleTimeout_transaction_def list_all_iff)

lemma handleTimeout_rolls_back:
  assumes "(\<exists>t\<in>set (ats_tasks s). t_id t = ot_id task \<and> \<not> in_int4 (t_retry_count t + 1)) \<or>
           \<not> in_int4 (fst (timeout_counters (ot_employee_warnings task)
                              (ot_employee_violations task))) \<or>
           \<not> in_int4 (fst (snd (timeout_counters (ot_employee_warnings task)
                              (ot_employee_violations task)))) \<or>
           ot_assigned_to task \<notin> set (map e_id (employees s)) \<or>
           ot_id task \<notin> set (map t_id (ats_tasks s))"
  shows "handleTimeout s task = s"
  using assms
  by (auto simp: handleTimeout_def handleTimeout_transaction_def list_all_iff
      split: prod.splits)

text \<open>
  C1, as the code has it. The threshold is 4, not 3. When an expiry promotes a warning
  into a violation (the warnings read are 2 or more) and the step commits, the holder's
  violations are the violations read plus one, and the gateway sets the status to offline
  exactly when that counter is at least 4, and to available exactly when it is below 4;
  other employee rows are unchanged. The step commits when the new counter and the new
  retry count of the task fit the integer columns and the task and the holder exist;
  when one of these fails the transaction is rolled back and the store is as before. The
  worker service, on tables that have the columns its queries name, sets the holder's
  violations likewise and \<^verbatim>\<open>is_active\<close> to false exactly when the counter is at
  least 4.
\<close>

theorem C1_lock_at_four:
  "(2 \<le> ot_employee_warnings task \<and> in_int4 (ot_employee_violations task + 1) \<and>
    (\<forall>t\<in>set (ats_tasks s). t_id t = ot_id task \<longrightarrow> in_int4 (t_retry_count t + 1)) \<and>
    ot_assigned_to task \<in> set (map e_id (employees s)) \<and>
    ot_id task \<in> set (map t_id (ats_tasks s)) \<longrightarrow>
      list_all2 (\<lambda>old new.
          if e_id old = ot_assigned_to task
          then e_violations new = ot_employee_violations task + 1 \<and>
               (e_status new = Offline) = (4 \<le> e_violations new) \<and>
               (e_status new = Available) = (e_violations new < 4)
          else new = old) (employees s) (employees (handleTimeout s task))) \<and>
   (2 \<le> ot_employee_warnings task \<and>
    (\<not> in_int4 (ot_employee_violations task + 1) \<or>
     (\<exists>t\<in>set (ats_tasks s). t_id t = ot_id task \<and> \<not> in_int4 (t_retry_count t + 1)) \<or>
     ot_assigned_to task \<notin> set (map e_id (employees s)) \<or>
     ot_id task \<notin> set (map t_id (ats_tasks s))) \<longrightarrow>
      handleTimeout s task = s) \<and>
   (2 \<le> wo_warnings wtask \<and> in_int4 (wo_violations wtask + 1) \<and>
    wo_assigned_to wtask \<in> set (map we_id (w_employees ws)) \<and>
    wo_id wtask \<in> set (map wt_id (w_ats_tasks ws)) \<longrightarrow>
      (\<exists>ws'. w_timeout_step gen now ws wtask = Inr ws' \<and>
         list_all2 (\<lambda>old new.
             if we_id old = wo_assigned_to wtask
             then we_violations new = wo_violations wtask + 1 \<and>
                  we_is_active new = (we_violations new < 4)
             else new = old) (w_employees ws) (w_employees ws')))"
proof (intro conjI impI)
  assume a: "2 \<le> ot_employee_warnings task \<and> in_int4 (ot_employee_violations task + 1) \<and>
    (\<forall>t\<in>set (ats_tasks s). t_id t = ot_id task \<longrightarrow> in_int4 (t_retry_count t + 1)) \<and>
    ot_assigned_to task \<in> set (map e_id (employees s)) \<and>
    ot_id task \<in> set (map t_id (ats_tasks s))"
  hence c: "timeout_counters (ot_employee_warnings task) (ot_employee_violations task) =
      (0, ot_employee_violations task + 1,
       (if 3 \<le> ot_employee_violations task then Offline else Available), Violation)"
    by (simp add: timeout_counters_cases)
  have z: "in_int4 0" by (simp add: in_int4_def)
  from a have "handleTimeout s task =
     s\<lparr>ats_tasks :=
         map (\<lambda>t. if t_id t = ot_id task then requeue_row t else t) (ats_tasks s),
       employees :=
         map (\<lambda>e. if e_id e = ot_assigned_to task
                   then e\<lparr>e_warnings := 0, e_violations := ot_employee_violations task + 1,
                          e_status := (if 3 \<le> ot_employee_violations task
                                       then Offline else Available),
                          e_current_task_id := None\<rparr>
                   else e) (employees s),
       employee_incidents :=
         employee_incidents s @
           [\<lparr>i_employee_id = ot_assigned_to task, i_type = Violation,
             i_reason = ''Task timeout - exceeded 20 minute SLA'',
             i_task_id = Some (ot_id task)\<rparr>]\<rparr>"
    by (intro handleTimeout_commits [OF _ c z]) simp_all
  thus "list_all2 (\<lambda>old new.
          if e_id old = ot_assigned_to task
          then e_violations new = ot_employee_violations task + 1 \<and>
               (e_status new = Offline) = (4 \<le> e_violations new) \<and>
               (e_status new = Available) = (e_violations new < 4)
          else new = old) (employees s) (employees (handleTimeout s task))"
    by (auto simp: reset_frame)
next
  assume a: "2 \<le> ot_employee_warnings task \<and>
    (\<not> in_int4 (ot_employee_violations task + 1) \<or>
     (\<exists>t\<in>set (ats_tasks s). t_id t = ot_id task \<and> \<not> in_int4 (t_retry_count t + 1)) \<or>
     ot_assigned_to task \<notin> set (map e_id (employees s)) \<or>
     ot_id task \<notin> set (map t_id (ats_tasks s)))"
  show "handleTimeout s task = s"
    using a by (intro handleTimeout_rolls_back) (auto simp: timeout_counters_cases)
next
  assume a: "2 \<le> wo_warnings wtask \<and> in_int4 (wo_violations wtask + 1) \<and>
    wo_assigned_to wtask \<in> set (map we_id (w_employees ws)) \<and>
    wo_id wtask \<in> set (map wt_id (w_ats_tasks ws))"
  have z: "in_int4 0" by (simp add: in_int4_def)
  show "\<exists>ws'. w_timeout_step gen now ws wtask = Inr ws' \<and>
         list_all2 (\<lambda>old new.
             if we_id old = wo_assigned_to wtask
             then we_violations new = wo_violations wtask + 1 \<and>
                  we_is_active new = (we_violations new < 4)
             else new = old) (w_employees ws) (w_employees ws')"
    using a z by (auto simp: w_timeout_step_def w_timeout_counters_cases Let_def reset_frame)
qed

text \<open>
  The promotion from three to four violations in both services, and the gateway's step
  for a holder read with 2147483647 violations, which changes nothing.
\<close>

theorem C1_lock_at_four_witness:
  "((2 \<le> ot_employee_warnings ex_third_strike \<and>
     in_int4 (ot_employee_violations ex_third_strike + 1) \<and>
     in_int4 (t_retry_count ex_task + 1) \<and>
     ot_assigned_to ex_third_strike \<in> set (map e_id (employees ex_fourth_store)) \<and>
     ot_id ex_third_strike \<in> set (map t_id (ats_tasks ex_fourth_store))) \<and>
    \<not> in_int4 (ot_employee_violations
                  (ex_third_strike\<lparr>ot_employee_violations := 2147483647\<rparr>) + 1) \<and>
    (2 \<le> wo_warnings (ex_w_overdue\<lparr>wo_violations := 3\<rparr>) \<and>
     in_int4 (wo_violations (ex_w_overdue\<lparr>wo_violations := 3\<rparr>) + 1) \<and>
     wo_assigned_to ex_w_overdue \<in> set (map we_id (w_employees ex_w_store)) \<and>
     wo_id ex_w_overdue \<in> set (map wt_id (w_ats_tasks ex_w_store)))) \<and>
   employees (handleTimeout ex_fourth_store ex_third_strike) =
     [ex_employee\<lparr>e_warnings := 0, e_violations := 4, e_status := Offline,
        e_current_task_id := None\<rparr>] \<and>
   handleTimeout ex_fourth_store (ex_third_strike\<lparr>ot_employee_violations := 2147483647\<rparr>) =
     ex_fourth_store \<and>
   map we_violations (w_employees (w_checkTimeouts ex_gen 1300000
      (ex_w_store\<lparr>w_employees := [ex_w_employee\<lparr>we_violations := 3\<rparr>]\<rparr>))) = [4] \<and>
   map we_is_active (w_employees (w_checkTimeouts ex_gen 1300000
      (ex_w_store\<lparr>w_employees := [ex_w_employee\<lparr>we_violations := 3\<rparr>]\<rparr>))) = [False]"
proof -
  have h: "(2 \<le> ot_employee_warnings ex_third_strike \<and>
     in_int4 (ot_employee_violations ex_third_strike + 1) \<and>
     in_int4 (t_retry_count ex_task + 1) \<and>
     ot_assigned_to ex_third_strike \<in> set (map e_id (employees ex_fourth_store)) \<and>
     ot_id ex_third_strike \<in> set (map t_id (ats_tasks ex_fourth_store))) \<and>
    \<not> in_int4 (ot_employee_violations
                  (ex_third_strike\<lparr>ot_employee_violations := 2147483647\<rparr>) + 1) \<and>
    (2 \<le> wo_warnings (ex_w_overdue\<lparr>wo_violations := 3\<rparr>) \<and>
     in_int4 (wo_violations (ex_w_overdue\<lparr>wo_violations := 3\<rparr>) + 1) \<and>
     wo_assigned_to ex_w_overdue \<in> set (map we_id (w_employees ex_w_store)) \<and>
     wo_id ex_w_overdue \<in> set (map wt_id (w_ats_tasks ex_w_store)))"
    by (simp add: in_int4_def ex_third_strike_def ex_fourth_store_def ex_store_def
        ex_employee_def ex_task_def ex_w_overdue_def ex_w_store_def ex_w_employee_def
        ex_w_task_def)
  have o: "w_overdue_tasks 1300000
      (ex_w_store\<lparr>w_employees := [ex_w_employee\<lparr>we_violations := 3\<rparr>]\<rparr>) =
      [ex_w_overdue\<lparr>wo_violations := 3\<rparr>]"
    by (simp add: w_overdue_tasks_def w_overdue_row_def ex_w_store_def ex_w_task_def
        ex_w_employee_def ex_w_overdue_def)
  from h
    C1_lock_at_four [where task = ex_third_strike and s = ex_fourth_store
      and wtask = "ex_w_overdue\<lparr>wo_violations := 3\<rparr>"
      and ws = "ex_w_store\<lparr>w_employees := [ex_w_employee\<lparr>we_violations := 3\<rparr>]\<rparr>"
      and gen = ex_gen and now = 1300000]
    C1_lock_at_four [where task = "ex_third_strike\<lparr>ot_employee_violations := 2147483647\<rparr>"
      and s = ex_fourth_store
      and wtask = "ex_w_overdue\<lparr>wo_violations := 3\<rparr>"
      and ws = "ex_w_store\<lparr>w_employees := [ex_w_employee\<lparr>we_violations := 3\<rparr>]\<rparr>"
      and gen = ex_gen and now = 1300000]
  show ?thesis
    by (simp add: w_checkTimeouts_def o)
       (simp add: timeout_defs w_timeout_step_def w_timeout_counters_cases
          ex_third_strike_def ex_fourth_store_def ex_store_def ex_employee_def ex_task_def
          ex_w_overdue_def ex_w_store_def ex_w_employee_def ex_w_task_def)
qed

text \<open>
  The claim fails at two warnings and two violations: after the sweep the employee has
  three violations and is available.
\<close>

theorem C1_suspension_counterexample:
  "employees (checkTimeouts 1300000 ex_store) =
     [\<lparr>e_id = ''e1'', e_role = Employee, e_status = Available, e_current_task_id = None,
       e_tasks_completed = 5, e_warnings = 0, e_violations = 3,
       e_average_completion_time_seconds = 600, e_last_heartbeat = Some 1000000\<rparr>]"
  by (simp add: checkTimeouts_def ex_overdue_tasks)
     (simp add: timeout_defs ex_store_def ex_employee_def ex_task_def ex_overdue_def)

lemma filter_unique_key:
  "distinct (map f xs) \<Longrightarrow> x \<in> set xs \<Longrightarrow> filter (\<lambda>y. f y = f x) xs = [x]"
proof (induction xs)
  case Nil
  then show ?case by simp
next
  case (Cons a xs)
  show ?case
  proof (cases "a = x")
    case True
    with Cons.prems have "f x \<notin> f ` set xs" by simp
    hence "\<forall>y\<in>set xs. f y \<noteq> f x" by (metis imageI)
    hence "filter (\<lambda>y. f y = f x) xs = []" by (simp add: filter_empty_conv)
    with True show ?thesis by simp
  next
    case False
    with Cons.prems have "x \<in> set xs" "f a \<noteq> f x" by auto
    with Cons show ?thesis by simp
  qed
qed

text \<open>
  C3, as the code has it. In the gateway, when the step commits (the counters read and
  the new counters fit the integer columns, every row with the task's id has a retry
  count below 2147483647, the task and the holder exist), the expired task keeps its row
  and id: status queued, assignee, assignment time, deadline and start time cleared,
  retry count one more, every other column and every other row as before, and no row is
  added. When the retry count of the row is 2147483647 the update raises and the
  transaction is rolled back: the store is as before. The worker service, on tables that
  have the columns its queries name and unique task ids, instead sets the expired row to
  timeout, keeping its other columns, and appends a new queued row copying job, candidate
  and score.
\<close>

theorem C3_expiry_rows:
  "(in_int4 (ot_employee_warnings task) \<and> in_int4 (ot_employee_violations task) \<and>
    ot_employee_violations task \<noteq> 2147483647 \<and>
    (\<forall>t\<in>set (ats_tasks s). t_id t = ot_id task \<longrightarrow> in_int4 (t_retry_count t + 1)) \<and>
    ot_assigned_to task \<in> set (map e_id (employees s)) \<and>
    ot_id task \<in> set (map t_id (ats_tasks s)) \<longrightarrow>
      list_all2 (\<lambda>old new.
          if t_id old = ot_id task
          then new = old\<lparr>t_status := Queued, t_assigned_to := None, t_assigned_at := None,
                         t_due_at := None, t_started_at := None,
                         t_retry_count := t_retry_count old + 1\<rparr>
          else new = old) (ats_tasks s) (ats_tasks (handleTimeout s task)) \<and>
      map t_id (ats_tasks (handleTimeout s task)) = map t_id (ats_tasks s)) \<and>
   ((\<exists>t\<in>set (ats_tasks s). t_id t = ot_id task \<and> t_retry_count t = 2147483647) \<longrightarrow>
      handleTimeout s task = s) \<and>
   (t \<in> set (w_ats_tasks ws) \<and> wt_id t = wo_id wtask \<and>
    distinct (map wt_id (w_ats_tasks ws)) \<and>
    in_int4 (wo_warnings wtask) \<and> in_int4 (wo_violations wtask) \<and>
    wo_violations wtask \<noteq> 2147483647 \<and>
    wo_assigned_to wtask \<in> set (map we_id (w_employees ws)) \<longrightarrow>
      (\<exists>ws'. w_timeout_step gen now ws wtask = Inr ws' \<and>
         w_ats_tasks ws' =
            map (\<lambda>x. if wt_id x = wo_id wtask then x\<lparr>wt_status := Timeout\<rparr> else x)
                (w_ats_tasks ws) @
            [\<lparr>wt_id = gen (length (w_ats_tasks ws)), wt_job_id = wt_job_id t,
              wt_candidate_id = wt_candidate_id t,
              wt_original_ats_score = wt_original_ats_score t, wt_status = Queued,
              wt_assigned_to = None, wt_assigned_at = None, wt_deadline = None,
              wt_created_at = now\<rparr>]))"
proof (intro conjI impI)
  assume a: "in_int4 (ot_employee_warnings task) \<and> in_int4 (ot_employee_violations task) \<and>
    ot_employee_violations task \<noteq> 2147483647 \<and>
    (\<forall>t\<in>set (ats_tasks s). t_id t = ot_id task \<longrightarrow> in_int4 (t_retry_count t + 1)) \<and>
    ot_assigned_to task \<in> set (map e_id (employees s)) \<and>
    ot_id task \<in> set (map t_id (ats_tasks s))"
  obtain nw nv st it where c:
    "timeout_counters (ot_employee_warnings task) (ot_employee_violations task) =
       (nw, nv, st, it)"
    by (cases "timeout_counters (ot_employee_warnings task) (ot_employee_violations task)")
  from a c have r: "in_int4 nw" "in_int4 nv"
    by (auto simp: timeout_counters_cases in_int4_def split: if_splits)
  from a have "handleTimeout s task =
     s\<lparr>ats_tasks :=
         map (\<lambda>t. if t_id t = ot_id task then requeue_row t else t) (ats_tasks s),
       employees :=
         map (\<lambda>e. if e_id e = ot_assigned_to task
                   then e\<lparr>e_warnings := nw, e_violations := nv,
                          e_status := st, e_current_task_id := None\<rparr>
                   else e) (employees s),
       employee_incidents :=
         employee_incidents s @
           [\<lparr>i_employee_id = ot_assigned_to task, i_type = it,
             i_reason = ''Task timeout - exceeded 20 minute SLA'',
             i_task_id = Some (ot_id task)\<rparr>]\<rparr>"
    by (intro handleTimeout_commits [OF _ c r]) simp_all
  hence e: "ats_tasks (handleTimeout s task) =
      map (\<lambda>t. if t_id t = ot_id task then requeue_row t else t) (ats_tasks s)"
    by simp
  show "list_all2 (\<lambda>old new.
          if t_id old = ot_id task
          then new = old\<lparr>t_status := Queued, t_assigned_to := None, t_assigned_at := None,
                         t_due_at := None, t_started_at := None,
                         t_retry_count := t_retry_count old + 1\<rparr>
          else new = old) (ats_tasks s) (ats_tasks (handleTimeout s task))"
    by (simp add: e reset_frame requeue_row_def)
  show "map t_id (ats_tasks (handleTimeout s task)) = map t_id (ats_tasks s)"
    by (simp add: e requeue_row_def)
next
  assume "\<exists>t\<in>set (ats_tasks s). t_id t = ot_id task \<and> t_retry_count t = 2147483647"
  hence "\<exists>t\<in>set (ats_tasks s). t_id t = ot_id task \<and> \<not> in_int4 (t_retry_count t + 1)"
    by (auto simp: in_int4_def)
  thus "handleTimeout s task = s"
    by (intro handleTimeout_rolls_back) simp
next
  assume a: "t \<in> set (w_ats_tasks ws) \<and> wt_id t = wo_id wtask \<and>
    distinct (map wt_id (w_ats_tasks ws)) \<and>
    in_int4 (wo_warnings wtask) \<and> in_int4 (wo_violations wtask) \<and>
    wo_violations wtask \<noteq> 2147483647 \<and>
    wo_assigned_to wtask \<in> set (map we_id (w_employees ws))"
  let ?g = "\<lambda>x. if wt_id x = wo_id wtask then x\<lparr>wt_status := Timeout\<rparr> else x"
  have "filter (\<lambda>y. wt_id y = wo_id wtask) (map ?g (w_ats_tasks ws)) =
        map ?g (filter (\<lambda>y. wt_id y = wt_id t) (w_ats_tasks ws))"
    using a by (simp add: filter_map comp_def cong: filter_cong)
  also have "\<dots> = [t\<lparr>wt_status := Timeout\<rparr>]"
    using a filter_unique_key [of wt_id "w_ats_tasks ws" t] by simp
  finally have f: "filter (\<lambda>y. wt_id y = wo_id wtask) (map ?g (w_ats_tasks ws)) =
      [t\<lparr>wt_status := Timeout\<rparr>]" .
  obtain nw nv it ia where c:
    "w_timeout_counters (wo_warnings wtask) (wo_violations wtask) = (nw, nv, it, ia)"
    by (cases "w_timeout_counters (wo_warnings wtask) (wo_violations wtask)")
  from a c have r: "in_int4 nw" "in_int4 nv"
    by (auto simp: w_timeout_counters_cases in_int4_def split: if_splits)
  from a have m: "wo_id wtask \<in> set (map wt_id (w_ats_tasks ws))" by force
  show "\<exists>ws'. w_timeout_step gen now ws wtask = Inr ws' \<and>
         w_ats_tasks ws' =
            map ?g (w_ats_tasks ws) @
            [\<lparr>wt_id = gen (length (w_ats_tasks ws)), wt_job_id = wt_job_id t,
              wt_candidate_id = wt_candidate_id t,
              wt_original_ats_score = wt_original_ats_score t, wt_status = Queued,
              wt_assigned_to = None, wt_assigned_at = None, wt_deadline = None,
              wt_created_at = now\<rparr>]"
    using a r m by (simp add: w_timeout_step_def Let_def c f w_clone_def)
qed

text \<open>
  The expiry of the example task in the gateway at retry count 4 and at retry count
  2147483647, and in the worker service.
\<close>

theorem C3_expiry_rows_witness:
  "((in_int4 (ot_employee_warnings ex_overdue) \<and> in_int4 (ot_employee_violations ex_overdue) \<and>
     ot_employee_violations ex_overdue \<noteq> 2147483647 \<and>
     in_int4 (t_retry_count ex_task + 1) \<and>
     ot_assigned_to ex_overdue \<in> set (map e_id (employees ex_store)) \<and>
     ot_id ex_overdue \<in> set (map t_id (ats_tasks ex_store))) \<and>
    t_retry_count (ex_task\<lparr>t_retry_count := 2147483647\<rparr>) = 2147483647 \<and>
    (ex_w_task \<in> set (w_ats_tasks ex_w_store) \<and> wt_id ex_w_task = wo_id ex_w_overdue \<and>
     distinct (map wt_id (w_ats_tasks ex_w_store)) \<and>
     in_int4 (wo_warnings ex_w_overdue) \<and> in_int4 (wo_violations ex_w_overdue) \<and>
     wo_violations ex_w_overdue \<noteq> 2147483647 \<and>
     wo_assigned_to ex_w_overdue \<in> set (map we_id (w_employees ex_w_store)))) \<and>
   ats_tasks (handleTimeout ex_store ex_overdue) =
     [ex_task\<lparr>t_status := Queued, t_assigned_to := None, t_assigned_at := None,
        t_due_at := None, t_started_at := None, t_retry_count := 5\<rparr>] \<and>
   handleTimeout (ex_store\<lparr>ats_tasks := [ex_task\<lparr>t_retry_count := 2147483647\<rparr>]\<rparr>) ex_overdue =
     ex_store\<lparr>ats_tasks := [ex_task\<lparr>t_retry_count := 2147483647\<rparr>]\<rparr> \<and>
   map wt_status (w_ats_tasks (w_checkTimeouts ex_gen 1300000 ex_w_store)) =
     [Timeout, Queued]"
proof -
  have h: "(in_int4 (ot_employee_warnings ex_overdue) \<and>
     in_int4 (ot_employee_violations ex_overdue) \<and>
     ot_employee_violations ex_overdue \<noteq> 2147483647 \<and>
     in_int4 (t_retry_count ex_task + 1) \<and>
     ot_assigned_to ex_overdue \<in> set (map e_id (employees ex_store)) \<and>
     ot_id ex_overdue \<in> set (map t_id (ats_tasks ex_store))) \<and>
    t_retry_count (ex_task\<lparr>t_retry_count := 2147483647\<rparr>) = 2147483647 \<and>
    (ex_w_task \<in> set (w_ats_tasks ex_w_store) \<and> wt_id ex_w_task = wo_id ex_w_overdue \<and>
     distinct (map wt_id (w_ats_tasks ex_w_store)) \<and>
     in_int4 (wo_warnings ex_w_overdue) \<and> in_int4 (wo_violations ex_w_overdue) \<and>
     wo_violations ex_w_overdue \<noteq> 2147483647 \<and>
     wo_assigned_to ex_w_overdue \<in> set (map we_id (w_employees ex_w_store)))"
    by (simp add: in_int4_def ex_overdue_def ex_store_def ex_employee_def ex_task_def
        ex_w_overdue_def ex_w_store_def ex_w_employee_def ex_w_task_def)
  from h
    C3_expiry_rows [where task = ex_overdue and s = ex_store and t = ex_w_task
      and ws = ex_w_store and wtask = ex_w_overdue and gen = ex_gen and now = 1300000]
    C3_expiry_rows [where task = ex_overdue
      and s = "ex_store\<lparr>ats_tasks := [ex_task\<lparr>t_retry_count := 2147483647\<rparr>]\<rparr>"
      and t = ex_w_task
      and ws = ex_w_store and wtask = ex_w_overdue and gen = ex_gen and now = 1300000]
  show ?thesis
    by (simp add: w_checkTimeouts_def ex_w_overdue_tasks)
       (simp add: timeout_defs w_timeout_step_def w_timeout_counters_cases w_clone_def
          ex_overdue_def ex_store_def ex_employee_def ex_task_def ex_gen_def
          ex_w_overdue_def ex_w_store_def ex_w_employee_def ex_w_task_def)
qed

text \<open>
  The claim fails in the worker service, run on tables with the columns it names: the
  expired row \<open>t1\<close> ends in status timeout with its assignment in place, and the queued
  task is a new row \<open>t2\<close>.
\<close>

theorem C3_worker_clone_counterexample:
  "w_ats_tasks (w_checkTimeouts ex_gen 1300000 ex_w_store) =
     [\<lparr>wt_id = ''t1'', wt_job_id = ''j1'', wt_candidate_id = ''c1'',
       wt_original_ats_score = 82.5, wt_status = Timeout, wt_assigned_to = Some ''e1'',
       wt_assigned_at = Some 0, wt_deadline = Some 1200000, wt_created_at = -5000\<rparr>,
      \<lparr>wt_id = ''t2'', wt_job_id = ''j1'', wt_candidate_id = ''c1'',
       wt_original_ats_score = 82.5, wt_status = Queued, wt_assigned_to = None,
       wt_assigned_at = None, wt_deadline = None, wt_created_at = 1300000\<rparr>]"
  by (simp add: w_checkTimeouts_def ex_w_overdue_tasks)
     (simp add: w_timeout_step_def w_timeout_counters_cases Let_def w_clone_def ex_gen_def
        in_int4_def ex_w_store_def ex_w_task_def ex_w_employee_def ex_w_overdue_def)

section \<open>Assignment\<close>

lemma order_by_limit_1_None: "(order_by_limit_1 before xs = None) = (xs = [])"
  by (induction xs) (auto split: option.splits)

lemma order_by_limit_1_mem: "order_by_limit_1 before xs = Some x \<Longrightarrow> x \<in> set xs"
  by (induction xs arbitrary: x) (auto split: option.splits if_splits)

lemma order_by_limit_1_first:
  assumes "order_by_limit_1 before xs = Some x"
    and asym: "\<And>a b. a \<in> set xs \<Longrightarrow> b \<in> set xs \<Longrightarrow> before a b \<Longrightarrow> \<not> before b a"
    and ntrans: "\<And>a b c. a \<in> set xs \<Longrightarrow> b \<in> set xs \<Longrightarrow> c \<in> set xs \<Longrightarrow>
                   \<not> before a b \<Longrightarrow> \<not> before b c \<Longrightarrow> \<not> before a c"
  shows "\<forall>y\<in>set xs. \<not> before y x"
  using assms
proof (induction xs arbitrary: x)
  case Nil
  show ?case by simp
next
  case (Cons a xs)
  have amem: "a \<in> set (a # xs)" by simp
  have irr: "\<not> before a a" using Cons.prems(2) [OF amem amem] by blast
  show ?case
  proof (cases "order_by_limit_1 before xs")
    case None
    hence e: "xs = []" by (simp add: order_by_limit_1_None)
    with Cons.prems(1) have "x = a" by simp
    with e irr show ?thesis by simp
  next
    case (Some y)
    have ymem: "y \<in> set xs" using Some by (rule order_by_limit_1_mem)
    hence ymem': "y \<in> set (a # xs)" by simp
    have ih: "\<forall>z\<in>set xs. \<not> before z y"
    proof (rule Cons.IH [OF Some])
      fix p q assume "p \<in> set xs" "q \<in> set xs" "before p q"
      hence "p \<in> set (a # xs)" "q \<in> set (a # xs)" "before p q" by simp_all
      then show "\<not> before q p" by (rule Cons.prems(2))
    next
      fix p q r assume "p \<in> set xs" "q \<in> set xs" "r \<in> set xs" "\<not> before p q" "\<not> before q r"
      hence "p \<in> set (a # xs)" "q \<in> set (a # xs)" "r \<in> set (a # xs)"
        "\<not> before p q" "\<not> before q r" by simp_all
      then show "\<not> before p r" by (rule Cons.prems(3))
    qed
    show ?thesis
    proof (cases "before y a")
      case True
      with Some Cons.prems(1) have xy: "x = y" by simp
      have "\<not> before a y" using Cons.prems(2) [OF ymem' amem True] .
      with ih xy show ?thesis by simp
    next
      case False
      with Some Cons.prems(1) have xa: "x = a" by simp
      have "\<forall>z\<in>set xs. \<not> before z a"
      proof
        fix z assume z: "z \<in> set xs"
        hence z': "z \<in> set (a # xs)" by simp
        from ih z have "\<not> before z y" by blast
        from Cons.prems(3) [OF z' ymem' amem this False] show "\<not> before z a" .
      qed
      with irr xa show ?thesis by simp
    qed
  qed
qed

lemma next_task_oldest:
  assumes "next_task s = Some task"
  shows "task \<in> set (queued_tasks s) \<and>
         (\<forall>t\<in>set (queued_tasks s). t_created_at task \<le> t_created_at t)"
proof -
  from assms have o: "order_by_limit_1 created_before (queued_tasks s) = Some task"
    by (simp add: next_task_def)
  have "\<forall>t\<in>set (queued_tasks s). \<not> created_before t task"
    by (rule order_by_limit_1_first [OF o]) (auto simp: created_before_def)
  thus ?thesis using order_by_limit_1_mem [OF o] by (auto simp: created_before_def)
qed

lemma next_employee_best:
  assumes "next_employee now s = Some emp"
  shows "emp \<in> set (employees s) \<and> available_employee now emp \<and>
         (\<forall>e\<in>set (employees s). available_employee now e \<longrightarrow>
            e_tasks_completed emp \<le> e_tasks_completed e \<and>
            (e_tasks_completed emp = e_tasks_completed e \<longrightarrow>
               (\<forall>h h'. e_last_heartbeat emp = Some h \<longrightarrow> e_last_heartbeat e = Some h' \<longrightarrow>
                  h' \<le> h)))"
proof -
  let ?xs = "filter (available_employee now) (employees s)"
  from assms have o: "order_by_limit_1 employee_before ?xs = Some emp"
    by (simp add: next_employee_def)
  have hb: "\<And>e. e \<in> set ?xs \<Longrightarrow> \<exists>h. e_last_heartbeat e = Some h"
    by (auto simp: available_employee_def split: option.splits)
  have "\<forall>e\<in>set ?xs. \<not> employee_before e emp"
  proof (rule order_by_limit_1_first [OF o])
    fix a b assume "a \<in> set ?xs" "b \<in> set ?xs" "employee_before a b"
    then show "\<not> employee_before b a"
      by (auto simp: employee_before_def split: option.splits)
  next
    fix a b c
    assume "a \<in> set ?xs" "b \<in> set ?xs" "c \<in> set ?xs"
      "\<not> employee_before a b" "\<not> employee_before b c"
    then show "\<not> employee_before a c"
      using hb [of a] hb [of b] hb [of c]
      by (auto simp: employee_before_def)
  qed
  moreover have m: "emp \<in> set ?xs" using o by (rule order_by_limit_1_mem)
  ultimately have nb: "\<And>e. e \<in> set (employees s) \<Longrightarrow> available_employee now e \<Longrightarrow>
      \<not> employee_before e emp" by simp
  have "\<forall>e\<in>set (employees s). available_employee now e \<longrightarrow>
            e_tasks_completed emp \<le> e_tasks_completed e \<and>
            (e_tasks_completed emp = e_tasks_completed e \<longrightarrow>
               (\<forall>h h'. e_last_heartbeat emp = Some h \<longrightarrow> e_last_heartbeat e = Some h' \<longrightarrow>
                  h' \<le> h))"
  proof (intro ballI impI)
    fix e assume e: "e \<in> set (employees s)" "available_employee now e"
    from nb [OF e] have n: "\<not> employee_before e emp" .
    show "e_tasks_completed emp \<le> e_tasks_completed e \<and>
            (e_tasks_completed emp = e_tasks_completed e \<longrightarrow>
               (\<forall>h h'. e_last_heartbeat emp = Some h \<longrightarrow> e_last_heartbeat e = Some h' \<longrightarrow>
                  h' \<le> h))"
    proof (intro conjI impI allI)
      show "e_tasks_completed emp \<le> e_tasks_completed e"
        using n by (simp add: employee_before_def)
    next
      fix h h'
      assume "e_tasks_completed emp = e_tasks_completed e"
        "e_last_heartbeat emp = Some h" "e_last_heartbeat e = Some h'"
      with n show "h' \<le> h" by (simp add: employee_before_def)
    qed
  qed
  with m show ?thesis by simp
qed

lemma next_task_Some: "queued_tasks s \<noteq> [] \<Longrightarrow> \<exists>task. next_task s = Some task"
  by (cases "next_task s") (simp_all add: next_task_def order_by_limit_1_None)

lemma next_employee_Some:
  "e \<in> set (employees s) \<Longrightarrow> available_employee now e \<Longrightarrow>
     \<exists>emp. next_employee now s = Some emp"
  by (cases "next_employee now s")
     (auto simp: next_employee_def order_by_limit_1_None filter_empty_conv)

lemma queued_tasks_subset: "t \<in> set (queued_tasks s) \<Longrightarrow> t \<in> set (ats_tasks s) \<and> t_status t = Queued"
  by (simp add: queued_tasks_def)

lemma assignNextTask_Some:
  "next_task s = Some task \<Longrightarrow> next_employee now s = Some emp \<Longrightarrow>
     assignNextTask now s =
       s\<lparr>ats_tasks :=
           map (\<lambda>t. if t_id t = t_id task then assign_row (e_id emp) now t else t) (ats_tasks s),
         employees :=
           map (\<lambda>e. if e_id e = e_id emp
                     then e\<lparr>e_status := Busy, e_current_task_id := Some (t_id task)\<rparr>
                     else e) (employees s)\<rparr>"
  by (simp add: assignNextTask_def)

lemma assignNextTask_None:
  "next_task s = None \<or> next_employee now s = None \<Longrightarrow> assignNextTask now s = s"
  by (auto simp: assignNextTask_def split: option.splits)

text \<open>
  C6, as the code has it. When the queue and the set of available employees are both
  non-empty, \<^verbatim>\<open>assignNextTask\<close> takes a queued task that no queued task precedes in
  \<^verbatim>\<open>created_at\<close>, and an available employee with the fewest completed tasks; among
  the available employees with that many completed tasks it takes one whose
  \<^verbatim>\<open>last_heartbeat\<close> is the most recent. It updates the row of that task to assigned,
  assignee, assignment time and due time 20 minutes later, the row of that employee to
  busy with the task as current task, and no other row.
\<close>

theorem C6_assignment_choice:
  assumes "queued_tasks s \<noteq> []"
    and "filter (available_employee now) (employees s) \<noteq> []"
  shows "\<exists>task emp.
      task \<in> set (queued_tasks s) \<and>
      (\<forall>t\<in>set (queued_tasks s). t_created_at task \<le> t_created_at t) \<and>
      emp \<in> set (employees s) \<and> available_employee now emp \<and>
      (\<forall>e\<in>set (employees s). available_employee now e \<longrightarrow>
         e_tasks_completed emp \<le> e_tasks_completed e \<and>
         (e_tasks_completed emp = e_tasks_completed e \<longrightarrow>
            (\<forall>h h'. e_last_heartbeat emp = Some h \<longrightarrow> e_last_heartbeat e = Some h' \<longrightarrow>
               h' \<le> h))) \<and>
      list_all2 (\<lambda>old new.
          if t_id old = t_id task
          then new = old\<lparr>t_status := Assigned, t_assigned_to := Some (e_id emp),
                         t_assigned_at := Some now,
                         t_due_at := Some (now + 20 * 60 * 1000)\<rparr>
          else new = old) (ats_tasks s) (ats_tasks (assignNextTask now s)) \<and>
      list_all2 (\<lambda>old new.
          if e_id old = e_id emp
          then new = old\<lparr>e_status := Busy, e_current_task_id := Some (t_id task)\<rparr>
          else new = old) (employees s) (employees (assignNextTask now s))"
proof -
  from assms(1) obtain task where t: "next_task s = Some task"
    using next_task_Some by blast
  from assms(2) obtain e where "e \<in> set (employees s)" "available_employee now e"
    by (auto simp: filter_empty_conv)
  then obtain emp where e: "next_employee now s = Some emp"
    using next_employee_Some by blast
  note a = next_task_oldest [OF t] and b = next_employee_best [OF e]
  have c: "list_all2 (\<lambda>old new.
          if t_id old = t_id task
          then new = old\<lparr>t_status := Assigned, t_assigned_to := Some (e_id emp),
                         t_assigned_at := Some now,
                         t_due_at := Some (now + 20 * 60 * 1000)\<rparr>
          else new = old) (ats_tasks s) (ats_tasks (assignNextTask now s))"
    by (simp add: assignNextTask_Some [OF t e] reset_frame assign_row_def SLA_MINUTES_def)
  have d: "list_all2 (\<lambda>old new.
          if e_id old = e_id emp
          then new = old\<lparr>e_status := Busy, e_current_task_id := Some (t_id task)\<rparr>
          else new = old) (employees s) (employees (assignNextTask now s))"
    by (simp add: assignNextTask_Some [OF t e] reset_frame)
  from a b c d show ?thesis by blast
qed

lemmas assign_defs =
  assignNextTask_def next_task_def next_employee_def queued_tasks_def available_employee_def
  employee_before_def created_before_def assign_row_def SLA_MINUTES_def

theorem C6_assignment_choice_witness:
  "(queued_tasks ex_two_store \<noteq> [] \<and>
    filter (available_employee 2100000) (employees ex_two_store) \<noteq> []) \<and>
   assignNextTask 2100000 ex_two_store =
     ex_two_store\<lparr>
       ats_tasks := [ex_queued\<lparr>t_status := Assigned, t_assigned_to := Some ''ea'',
                       t_assigned_at := Some 2100000, t_due_at := Some 3300000\<rparr>],
       employees := [ex_older,
                     ex_newer\<lparr>e_status := Busy, e_current_task_id := Some ''t9''\<rparr>]\<rparr>"
proof -
  have h: "queued_tasks ex_two_store \<noteq> []"
    "filter (available_employee 2100000) (employees ex_two_store) \<noteq> []"
    by (simp_all add: assign_defs ex_store_def ex_queued_def ex_older_def ex_newer_def ex_two_store_def)
  from C6_assignment_choice [OF h] h show ?thesis
    by (simp add: assign_defs ex_store_def ex_queued_def ex_older_def ex_newer_def ex_two_store_def)
qed

text \<open>
  The claim fails on the tie-break: of two employees with three completed tasks each, the
  task goes to \<^verbatim>\<open>ea\<close>, whose heartbeat is the more recent, not to \<^verbatim>\<open>eb\<close>,
  whose heartbeat is the older.
\<close>

theorem C6_tie_break_counterexample:
  "e_tasks_completed ex_older = e_tasks_completed ex_newer \<and>
   e_last_heartbeat ex_older = Some 2050000 \<and> e_last_heartbeat ex_newer = Some 2090000 \<and>
   map t_assigned_to (ats_tasks (assignNextTask 2100000 ex_two_store)) = [Some ''ea''] \<and>
   map e_status (employees (assignNextTask 2100000 ex_two_store)) = [Available, Busy]"
  by (simp add: assign_defs ex_store_def ex_queued_def ex_older_def ex_newer_def ex_two_store_def)

lemma set_insert_by: "set (insert_by before x xs) = insert x (set xs)"
  by (induction xs) auto

lemma set_order_by: "set (order_by before xs) = set xs"
  by (induction xs) (simp_all add: order_by_def set_insert_by)

lemma availableEmployees_available:
  "e \<in> set (availableEmployees s) \<Longrightarrow> e \<in> set (w_employees s) \<and> w_available s e"
proof -
  assume "e \<in> set (availableEmployees s)"
  hence "e \<in> set (order_by w_employee_before (filter (w_available s) (w_employees s)))"
    unfolding availableEmployees_def by (rule in_set_takeD)
  thus ?thesis by (simp add: set_order_by)
qed

lemma w_assign_fold_rows:
  assumes "\<forall>p\<in>set ps. P (snd p)"
    and "t' \<in> set (w_ats_tasks (foldl (w_assign_step m now) s ps))"
  shows "t' \<in> set (w_ats_tasks s) \<or>
         (\<exists>e. P e \<and> wt_assigned_to t' = Some (we_id e) \<and> wt_status t' = Assigned)"
  using assms
proof (induction ps arbitrary: s)
  case Nil
  then show ?case by simp
next
  case (Cons p ps)
  from Cons.prems have P: "P (snd p)" and rest: "\<forall>q\<in>set ps. P (snd q)" by simp_all
  from Cons.prems(2)
  have "t' \<in> set (w_ats_tasks (foldl (w_assign_step m now) (w_assign_step m now s p) ps))"
    by simp
  from Cons.IH [OF rest this]
  show ?case
  proof
    assume "t' \<in> set (w_ats_tasks (w_assign_step m now s p))"
    then show ?thesis using P
      by (cases p) (auto simp: w_assign_step_def)
  next
    assume "\<exists>e. P e \<and> wt_assigned_to t' = Some (we_id e) \<and> wt_status t' = Assigned"
    then show ?thesis by simp
  qed
qed

lemma assignTasks_rows:
  assumes "t' \<in> set (w_ats_tasks (assignTasks m now s))"
  shows "t' \<in> set (w_ats_tasks s) \<or>
         (\<exists>e\<in>set (w_employees s). w_available s e \<and>
             wt_assigned_to t' = Some (we_id e) \<and> wt_status t' = Assigned)"
proof (cases "availableEmployees s = [] \<or> queuedTasks s (length (availableEmployees s)) = []")
  case True
  hence "assignTasks m now s = s"
    by (auto simp: assignTasks_def split: list.splits)
  with assms show ?thesis by simp
next
  case False
  let ?ps = "zip (queuedTasks s (length (availableEmployees s))) (availableEmployees s)"
  from False have eq: "assignTasks m now s = foldl (w_assign_step m now) s ?ps"
    by (auto simp: assignTasks_def split: list.splits)
  have "\<forall>p\<in>set ?ps. (\<lambda>e. e \<in> set (w_employees s) \<and> w_available s e) (snd p)"
    using availableEmployees_available by (auto dest: set_zip_rightD)
  moreover from assms eq
  have "t' \<in> set (w_ats_tasks (foldl (w_assign_step m now) s ?ps))" by simp
  ultimately have "t' \<in> set (w_ats_tasks s) \<or>
      (\<exists>e. (e \<in> set (w_employees s) \<and> w_available s e) \<and>
           wt_assigned_to t' = Some (we_id e) \<and> wt_status t' = Assigned)"
    by (rule w_assign_fold_rows)
  thus ?thesis by blast
qed

text \<open>
  C5, as the code has it. In the gateway, a task row that \<^verbatim>\<open>assignNextTask\<close> changes
  is assigned to an employee with status available, fewer than 4 violations, no current
  task and a heartbeat within the last 5 minutes; and when the queue is non-empty, every
  employee meeting these four conditions is considered: a queued task is assigned to an
  employee with at most as many completed tasks. In the worker service, a task row that
  \<^verbatim>\<open>assignTasks\<close> changes is assigned to an employee with status available and
  \<^verbatim>\<open>is_active\<close> true who holds no task in assigned or in progress.
\<close>

theorem C5_eligibility:
  "(\<forall>t'\<in>set (ats_tasks (assignNextTask now s)). t' \<notin> set (ats_tasks s) \<longrightarrow>
      (\<exists>e\<in>set (employees s).
         t_assigned_to t' = Some (e_id e) \<and> e_status e = Available \<and> e_violations e < 4 \<and>
         e_current_task_id e = None \<and>
         (\<exists>h. e_last_heartbeat e = Some h \<and> now - 5 * 60 * 1000 < h))) \<and>
   (queued_tasks s \<noteq> [] \<and> e \<in> set (employees s) \<and> e_status e = Available \<and>
    e_violations e < 4 \<and> e_current_task_id e = None \<and> e_last_heartbeat e = Some h \<and>
    now - 5 * 60 * 1000 < h \<longrightarrow>
      (\<exists>emp\<in>set (employees s). \<exists>task\<in>set (queued_tasks s).
         e_tasks_completed emp \<le> e_tasks_completed e \<and>
         task\<lparr>t_status := Assigned, t_assigned_to := Some (e_id emp),
              t_assigned_at := Some now, t_due_at := Some (now + 20 * 60 * 1000)\<rparr>
           \<in> set (ats_tasks (assignNextTask now s)))) \<and>
   (\<forall>t'\<in>set (w_ats_tasks (assignTasks m now ws)). t' \<notin> set (w_ats_tasks ws) \<longrightarrow>
      (\<exists>e\<in>set (w_employees ws).
         wt_assigned_to t' = Some (we_id e) \<and> we_status e = Available \<and> we_is_active e \<and>
         (\<forall>t\<in>set (w_ats_tasks ws). wt_assigned_to t = Some (we_id e) \<longrightarrow>
            wt_status t \<noteq> Assigned \<and> wt_status t \<noteq> InProgress)))"
proof (intro conjI ballI impI)
  fix t' assume t': "t' \<in> set (ats_tasks (assignNextTask now s))" "t' \<notin> set (ats_tasks s)"
  hence ch: "assignNextTask now s \<noteq> s" by auto
  then obtain task emp where te: "next_task s = Some task" "next_employee now s = Some emp"
    using assignNextTask_None [of s now] by (cases "next_task s"; cases "next_employee now s") auto
  from t' have "t_assigned_to t' = Some (e_id emp)"
    by (auto simp: assignNextTask_Some [OF te] assign_row_def split: if_splits)
  moreover from next_employee_best [OF te(2)]
  have "emp \<in> set (employees s)" "available_employee now emp" by simp_all
  ultimately show "\<exists>e\<in>set (employees s).
         t_assigned_to t' = Some (e_id e) \<and> e_status e = Available \<and> e_violations e < 4 \<and>
         e_current_task_id e = None \<and>
         (\<exists>h. e_last_heartbeat e = Some h \<and> now - 5 * 60 * 1000 < h)"
    by (auto simp: available_employee_def split: option.splits)
next
  assume a: "queued_tasks s \<noteq> [] \<and> e \<in> set (employees s) \<and> e_status e = Available \<and>
    e_violations e < 4 \<and> e_current_task_id e = None \<and> e_last_heartbeat e = Some h \<and>
    now - 5 * 60 * 1000 < h"
  hence av: "available_employee now e" by (simp add: available_employee_def)
  from a obtain task where t: "next_task s = Some task" using next_task_Some by blast
  from a av obtain emp where m: "next_employee now s = Some emp"
    using next_employee_Some by blast
  from next_task_oldest [OF t] have tq: "task \<in> set (queued_tasks s)" by simp
  hence tm: "task \<in> set (ats_tasks s)" by (simp add: queued_tasks_subset)
  from next_employee_best [OF m] a av
  have em: "emp \<in> set (employees s)" "e_tasks_completed emp \<le> e_tasks_completed e" by auto
  have "assign_row (e_id emp) now task \<in> set (ats_tasks (assignNextTask now s))"
    using tm by (force simp: assignNextTask_Some [OF t m])
  hence "task\<lparr>t_status := Assigned, t_assigned_to := Some (e_id emp),
              t_assigned_at := Some now, t_due_at := Some (now + 20 * 60 * 1000)\<rparr>
           \<in> set (ats_tasks (assignNextTask now s))"
    by (simp add: assign_row_def SLA_MINUTES_def)
  with tq em show "\<exists>emp\<in>set (employees s). \<exists>task\<in>set (queued_tasks s).
         e_tasks_completed emp \<le> e_tasks_completed e \<and>
         task\<lparr>t_status := Assigned, t_assigned_to := Some (e_id emp),
              t_assigned_at := Some now, t_due_at := Some (now + 20 * 60 * 1000)\<rparr>
           \<in> set (ats_tasks (assignNextTask now s))"
    by blast
next
  fix t' assume "t' \<in> set (w_ats_tasks (assignTasks m now ws))" "t' \<notin> set (w_ats_tasks ws)"
  with assignTasks_rows [of t' m now ws]
  obtain e where "e \<in> set (w_employees ws)" "w_available ws e"
    "wt_assigned_to t' = Some (we_id e)" by blast
  thus "\<exists>e\<in>set (w_employees ws).
         wt_assigned_to t' = Some (we_id e) \<and> we_status e = Available \<and> we_is_active e \<and>
         (\<forall>t\<in>set (w_ats_tasks ws). wt_assigned_to t = Some (we_id e) \<longrightarrow>
            wt_status t \<noteq> Assigned \<and> wt_status t \<noteq> InProgress)"
    by (auto simp: w_available_def)
qed

lemmas w_assign_defs =
  assignTasks_def availableEmployees_def queuedTasks_def order_by_def w_available_def
  w_assign_step_def

theorem C5_eligibility_witness:
  "(queued_tasks ex_waiting_store \<noteq> [] \<and> ex_idle \<in> set (employees ex_waiting_store) \<and>
    e_status ex_idle = Available \<and> e_violations ex_idle < 4 \<and>
    e_current_task_id ex_idle = None \<and> e_last_heartbeat ex_idle = Some 1900000 \<and>
    2100000 - 5 * 60 * 1000 < (1900000::int)) \<and>
   ats_tasks (assignNextTask 2100000 ex_waiting_store) =
     [ex_queued\<lparr>t_status := Assigned, t_assigned_to := Some ''e2'',
        t_assigned_at := Some 2100000, t_due_at := Some 3300000\<rparr>] \<and>
   w_ats_tasks (assignTasks 20 2100000 ex_w_waiting_store) =
     [ex_w_queued\<lparr>wt_status := Assigned, wt_assigned_to := Some ''e2'',
        wt_assigned_at := Some 2100000, wt_deadline := Some 3300000\<rparr>]"
proof -
  have h: "queued_tasks ex_waiting_store \<noteq> [] \<and> ex_idle \<in> set (employees ex_waiting_store) \<and>
    e_status ex_idle = Available \<and> e_violations ex_idle < 4 \<and>
    e_current_task_id ex_idle = None \<and> e_last_heartbeat ex_idle = Some 1900000 \<and>
    2100000 - 5 * 60 * 1000 < (1900000::int)"
    by (simp add: assign_defs ex_store_def ex_queued_def ex_idle_def ex_waiting_store_def)
  from C5_eligibility [of 2100000 ex_waiting_store ex_idle 1900000 20 ex_w_waiting_store] h
  show ?thesis
    by (simp add: assign_defs ex_store_def ex_queued_def ex_idle_def ex_waiting_store_def
        w_assign_defs ex_w_waiting_store_def ex_w_idle_def ex_w_queued_def)
qed

text \<open>
  The claim fails for an employee with three violations whose last heartbeat is 200
  seconds old: the task is assigned to that employee.
\<close>

theorem C5_eligibility_counterexample:
  "e_violations ex_idle = 3 \<and> e_last_heartbeat ex_idle = Some (2100000 - 200 * 1000) \<and>
   map t_assigned_to (ats_tasks (assignNextTask 2100000 ex_waiting_store)) = [Some ''e2''] \<and>
   map e_status (employees (assignNextTask 2100000 ex_waiting_store)) = [Busy]"
  by (simp add: assign_defs ex_store_def ex_queued_def ex_idle_def ex_waiting_store_def)

lemma order_by_limit_1_map:
  assumes "\<And>a b. before (g a) (g b) = before a b"
  shows "order_by_limit_1 before (map g xs) = map_option g (order_by_limit_1 before xs)"
  by (induction xs) (auto simp: assms split: option.splits)

lemma queued_tasks_retry:
  "queued_tasks (s\<lparr>ats_tasks := map (\<lambda>t. t\<lparr>t_retry_count := r (t_id t)\<rparr>) (ats_tasks s)\<rparr>) =
     map (\<lambda>t. t\<lparr>t_retry_count := r (t_id t)\<rparr>) (queued_tasks s)"
  by (simp add: queued_tasks_def filter_map comp_def)

lemma next_task_retry:
  "next_task (s\<lparr>ats_tasks := map (\<lambda>t. t\<lparr>t_retry_count := r (t_id t)\<rparr>) (ats_tasks s)\<rparr>) =
     map_option (\<lambda>t. t\<lparr>t_retry_count := r (t_id t)\<rparr>) (next_task s)"
  unfolding next_task_def queued_tasks_retry
  by (rule order_by_limit_1_map) (simp add: created_before_def)

lemma next_employee_retry:
  "next_employee now (s\<lparr>ats_tasks := ts\<rparr>) = next_employee now s"
  by (simp add: next_employee_def)

lemma assignNextTask_retry:
  "assignNextTask now
     (s\<lparr>ats_tasks := map (\<lambda>t. t\<lparr>t_retry_count := r (t_id t)\<rparr>) (ats_tasks s)\<rparr>) =
   (assignNextTask now s)
     \<lparr>ats_tasks := map (\<lambda>t. t\<lparr>t_retry_count := r (t_id t)\<rparr>)
                       (ats_tasks (assignNextTask now s))\<rparr>"
proof (cases "next_task s")
  case None
  then show ?thesis by (simp add: assignNextTask_def next_task_retry)
next
  case (Some task)
  show ?thesis
  proof (cases "next_employee now s")
    case None
    then show ?thesis
      by (simp add: assignNextTask_def next_task_retry next_employee_retry Some)
  next
    case (Some emp)
    with \<open>next_task s = Some task\<close> show ?thesis
      by (simp add: assignNextTask_def next_task_retry next_employee_retry assign_row_def
          comp_def)
  qed
qed

text \<open>
  C7, as the code has it. The assigner has no retry cap. What \<^verbatim>\<open>assignNextTask\<close> does
  is independent of the retry counts: overwriting every retry count by an arbitrary
  function of the task id before the tick gives the same result as overwriting it after.
  The task it picks is set to assigned and bound to the picked employee with its retry
  count unchanged, and neither it nor the worker's \<^verbatim>\<open>assignTasks\<close> sets any row to
  timeout.
\<close>

theorem C7_no_retry_cap:
  "assignNextTask now
     (s\<lparr>ats_tasks := map (\<lambda>t. t\<lparr>t_retry_count := r (t_id t)\<rparr>) (ats_tasks s)\<rparr>) =
   (assignNextTask now s)
     \<lparr>ats_tasks := map (\<lambda>t. t\<lparr>t_retry_count := r (t_id t)\<rparr>)
                       (ats_tasks (assignNextTask now s))\<rparr> \<and>
   (\<forall>t'\<in>set (ats_tasks (assignNextTask now s)).
      t_status t' = Timeout \<longrightarrow> t' \<in> set (ats_tasks s)) \<and>
   (next_task s = Some task \<and> next_employee now s = Some emp \<longrightarrow>
      list_all2 (\<lambda>old new.
          if t_id old = t_id task
          then t_status new = Assigned \<and> t_assigned_to new = Some (e_id emp) \<and>
               t_retry_count new = t_retry_count old
          else new = old) (ats_tasks s) (ats_tasks (assignNextTask now s))) \<and>
   (\<forall>t'\<in>set (w_ats_tasks (assignTasks m now ws)).
      wt_status t' = Timeout \<longrightarrow> t' \<in> set (w_ats_tasks ws))"
proof (intro conjI ballI impI)
  show "assignNextTask now
     (s\<lparr>ats_tasks := map (\<lambda>t. t\<lparr>t_retry_count := r (t_id t)\<rparr>) (ats_tasks s)\<rparr>) =
   (assignNextTask now s)
     \<lparr>ats_tasks := map (\<lambda>t. t\<lparr>t_retry_count := r (t_id t)\<rparr>)
                       (ats_tasks (assignNextTask now s))\<rparr>"
    by (rule assignNextTask_retry)
next
  fix t' assume "t' \<in> set (ats_tasks (assignNextTask now s))" "t_status t' = Timeout"
  then show "t' \<in> set (ats_tasks s)"
    by (auto simp: assignNextTask_def assign_row_def split: option.splits if_splits)
next
  assume "next_task s = Some task \<and> next_employee now s = Some emp"
  hence te: "next_task s = Some task" "next_employee now s = Some emp" by simp_all
  show "list_all2 (\<lambda>old new.
          if t_id old = t_id task
          then t_status new = Assigned \<and> t_assigned_to new = Some (e_id emp) \<and>
               t_retry_count new = t_retry_count old
          else new = old) (ats_tasks s) (ats_tasks (assignNextTask now s))"
    by (simp add: assignNextTask_Some [OF te] reset_frame assign_row_def)
next
  fix t' assume "t' \<in> set (w_ats_tasks (assignTasks m now ws))" "wt_status t' = Timeout"
  with assignTasks_rows [of t' m now ws] show "t' \<in> set (w_ats_tasks ws)" by auto
qed

theorem C7_no_retry_cap_witness:
  "(next_task ex_retry_store = Some (ex_queued\<lparr>t_retry_count := 4\<rparr>) \<and>
    next_employee 2100000 ex_retry_store = Some ex_newer) \<and>
   assignNextTask 2100000 ex_retry_store =
     ex_retry_store\<lparr>
       ats_tasks := [ex_queued\<lparr>t_retry_count := 4, t_status := Assigned,
                       t_assigned_to := Some ''ea'', t_assigned_at := Some 2100000,
                       t_due_at := Some 3300000\<rparr>],
       employees := [ex_newer\<lparr>e_status := Busy, e_current_task_id := Some ''t9''\<rparr>]\<rparr>"
proof -
  have h: "next_task ex_retry_store = Some (ex_queued\<lparr>t_retry_count := 4\<rparr>) \<and>
    next_employee 2100000 ex_retry_store = Some ex_newer"
    by (simp add: assign_defs ex_store_def ex_queued_def ex_newer_def ex_retry_store_def)
  from C7_no_retry_cap [where now = 2100000 and s = ex_retry_store
      and task = "ex_queued\<lparr>t_retry_count := 4\<rparr>" and emp = ex_newer
      and r = "\<lambda>_. 0" and m = 20 and ws = ex_w_waiting_store] h
  show ?thesis
    by (simp add: assign_defs ex_store_def ex_queued_def ex_newer_def ex_retry_store_def)
qed

text \<open>
  The claim fails for a queued task with retry count 4: it is assigned.
\<close>

theorem C7_retry_cap_counterexample:
  "map t_retry_count (ats_tasks ex_retry_store) = [4] \<and>
   map t_status (ats_tasks ex_retry_store) = [Queued] \<and>
   map t_status (ats_tasks (assignNextTask 2100000 ex_retry_store)) = [Assigned] \<and>
   map t_assigned_to (ats_tasks (assignNextTask 2100000 ex_retry_store)) = [Some ''ea'']"
  by (simp add: assign_defs ex_store_def ex_queued_def ex_newer_def ex_retry_store_def)

section \<open>Completing a task\<close>

lemma update_employee_rows_rel:
  "update_employee_rows secs uid es = Inr es' \<Longrightarrow>
     list_all2 (\<lambda>old new. if e_id old = uid then update_employee_row secs old = Inr new
                            else new = old) es es'"
proof (induction es arbitrary: es')
  case Nil
  then show ?case by simp
next
  case (Cons e es)
  from Cons.prems obtain e' es'' where
    r: "update_employee_rows secs uid es = Inr es''" and
    e: "es' = e' # es''" and
    h: "if e_id e = uid then update_employee_row secs e = Inr e' else e' = e"
    by (auto split: if_splits sum.splits)
  from Cons.IH [OF r] h e show ?case by simp
qed

lemma update_employee_row_fields:
  "update_employee_row secs old = Inr new \<Longrightarrow>
     e_status new = Available \<and> e_current_task_id new = None \<and>
     e_tasks_completed new = e_tasks_completed old + 1 \<and>
     new_average old secs = Inr (e_average_completion_time_seconds new) \<and>
     e_warnings new = e_warnings old \<and> e_violations new = e_violations old \<and>
     e_id new = e_id old"
  by (auto simp: update_employee_row_def split: sum.splits if_splits)

lemma update_employee_rel:
  assumes "update_employee secs uid es = Inr es'"
  shows "list_all2 (\<lambda>old new.
             if e_id old = uid
             then e_status new = Available \<and> e_current_task_id new = None \<and>
                  e_tasks_completed new = e_tasks_completed old + 1 \<and>
                  new_average old secs = Inr (e_average_completion_time_seconds new) \<and>
                  e_warnings new = e_warnings old \<and> e_violations new = e_violations old
             else new = old) es es'"
proof -
  from assms have "update_employee_rows secs uid es = Inr es'"
    by (simp add: update_employee_def split: if_splits)
  hence "list_all2 (\<lambda>old new. if e_id old = uid
            then update_employee_row secs old = Inr new else new = old) es es'"
    by (rule update_employee_rows_rel)
  thus ?thesis
    by (rule list_all2_mono) (auto dest: update_employee_row_fields split: if_splits)
qed

lemma update_employee_row_ok:
  assumes "0 \<le> secs" "secs \<le> 2147483647"
    and "0 \<le> e_tasks_completed e" "e_tasks_completed e < 2147483647"
    and "0 \<le> e_average_completion_time_seconds e"
    and "e_average_completion_time_seconds e * e_tasks_completed e + secs \<le> 2147483647"
  shows "\<exists>e'. update_employee_row secs e = Inr e'"
proof -
  have p: "0 \<le> e_average_completion_time_seconds e * e_tasks_completed e"
    using assms by simp
  hence "in_int4 (e_average_completion_time_seconds e * e_tasks_completed e)"
    "in_int4 (e_average_completion_time_seconds e * e_tasks_completed e + secs)"
    "in_int4 (e_tasks_completed e + 1)"
    using assms unfolding in_int4_def by linarith+
  moreover have "e_tasks_completed e + 1 \<noteq> 0" using assms by simp
  moreover have "e_average_completion_time_seconds e * e_tasks_completed e + secs
      \<noteq> - 2147483648" using p assms(1) by linarith
  ultimately show ?thesis
    by (simp add: update_employee_row_def new_average_def sql_div_def)
qed

lemma update_employee_ok:
  assumes "0 \<le> secs" "secs \<le> 2147483647"
    and "\<forall>e\<in>set es. e_id e = uid \<longrightarrow>
           0 \<le> e_tasks_completed e \<and> e_tasks_completed e < 2147483647 \<and>
           0 \<le> e_average_completion_time_seconds e \<and>
           e_average_completion_time_seconds e * e_tasks_completed e + secs \<le> 2147483647"
  shows "\<exists>es'. update_employee secs uid es = Inr es'"
proof -
  have "\<exists>es'. update_employee_rows secs uid es = Inr es'"
    using assms(3)
  proof (induction es)
    case Nil
    show ?case by simp
  next
    case (Cons e es)
    then obtain es' where es': "update_employee_rows secs uid es = Inr es'" by auto
    show ?case
    proof (cases "e_id e = uid")
      case True
      with Cons.prems assms(1,2) have "\<exists>e'. update_employee_row secs e = Inr e'"
        by (intro update_employee_row_ok) simp_all
      then obtain e' where "update_employee_row secs e = Inr e'" ..
      with True es' show ?thesis by simp
    next
      case False
      with es' show ?thesis by simp
    qed
  qed
  moreover have "in_int4 secs" using assms(1,2) by (simp add: in_int4_def)
  ultimately show ?thesis by (simp add: update_employee_def)
qed

lemma upsert_application_present:
  "\<exists>a\<in>set (applications (upsert_application now url taskId task s)).
      a_candidate_id a = t_candidate_id task \<and> a_job_id a = t_job_id task \<and>
      a_resume_used_url a = Some url \<and> a_status a = ''submitted'' \<and>
      a_submitted_at a = Some now"
proof (cases "\<exists>a \<in> set (applications s).
            a_candidate_id a = t_candidate_id task \<and> a_job_id a = t_job_id task")
  case True
  then obtain a where a: "a \<in> set (applications s)"
    "a_candidate_id a = t_candidate_id task" "a_job_id a = t_job_id task" by blast
  let ?a = "a\<lparr>a_resume_used_url := Some url, a_status := ''submitted'',
               a_submitted_at := Some now\<rparr>"
  have "?a \<in> set (applications (upsert_application now url taskId task s))"
    using True a by (force simp: upsert_application_def)
  moreover have "a_candidate_id ?a = t_candidate_id task \<and> a_job_id ?a = t_job_id task \<and>
      a_resume_used_url ?a = Some url \<and> a_status ?a = ''submitted'' \<and>
      a_submitted_at ?a = Some now" using a by simp
  ultimately show ?thesis by blast
next
  case False
  hence eq: "upsert_application now url taskId task s =
      s\<lparr>applications := applications s @
               [\<lparr>a_candidate_id = t_candidate_id task, a_job_id = t_job_id task,
                 a_task_id = Some taskId, a_resume_used_url = Some url,
                 a_ats_score_at_submission = t_ats_score task, a_status = ''submitted'',
                 a_auto_submitted = False, a_submitted_at = Some now\<rparr>]\<rparr>"
    unfolding upsert_application_def by (rule if_not_P)
  show ?thesis unfolding eq by simp
qed

lemma upsert_application_frame:
  "ats_tasks (upsert_application now url taskId task s) = ats_tasks s"
  "employees (upsert_application now url taskId task s) = employees s"
  "candidates (upsert_application now url taskId task s) = candidates s"
  by (simp_all add: upsert_application_def)

text \<open>
  C9, as the code has it. Completion is a sequence of separately committed statements.
  The theorem gives answer and store at every point where the handler can stop. Without
  a file (400), with the task query rejected, with no open task of the caller (404), with
  the upload or the task update rejected, the store is as before. With the candidate
  update rejected the task row is completed. With the employee update rejected, or
  raising because a value leaves the integer range, the task row is completed and the
  candidate has the new resume. With the job query or the upsert rejected the employee
  rows are updated as well: status available, no current task, one more completed task
  and the new running average on the caller's rows, other rows as before. With the
  publication rejected the application is written too. When no call is rejected every
  effect is applied and the handler answers with URL and completion time; the
  application is written only when the job exists. The employee update succeeds when the
  completion time is from 0 to 2147483647 and, on the caller's rows, the completed tasks
  are from 0 to 2147483646, the average is not negative and average times completed
  tasks plus completion time is at most 2147483647.
\<close>

theorem C9_complete_steps:
  "(let secs = (now - (case t_assigned_at task of
                         Some a \<Rightarrow> a | None \<Rightarrow> t_created_at task)) div 1000;
        s1 = s\<lparr>ats_tasks :=
                 map (\<lambda>t. if t_id t = taskId
                           then t\<lparr>t_status := Completed, t_completed_at := Some now,
                                  t_new_resume_url := Some url, t_notes := remarks\<rparr>
                           else t) (ats_tasks s)\<rparr>;
        s2 = s1\<lparr>candidates :=
                  map (\<lambda>c. if c_id c = t_candidate_id task
                            then c\<lparr>c_resume_url := Some url\<rparr> else c) (candidates s)\<rparr>
    in
    (\<not> resume \<longrightarrow>
       complete rejects now url s taskId userId resume remarks = (Inl (AppError 400), s)) \<and>
    (resume \<and> rejects SelectTask \<longrightarrow>
       complete rejects now url s taskId userId resume remarks =
         (Inl (Rejected SelectTask), s)) \<and>
    (resume \<and> \<not> rejects SelectTask \<and> owned_open_tasks s taskId userId = [] \<longrightarrow>
       complete rejects now url s taskId userId resume remarks = (Inl (AppError 404), s)) \<and>
    (resume \<and> \<not> rejects SelectTask \<and> owned_open_tasks s taskId userId = task # rest \<longrightarrow>
       (rejects UploadResume \<longrightarrow>
          complete rejects now url s taskId userId resume remarks =
            (Inl (Rejected UploadResume), s)) \<and>
       (\<not> rejects UploadResume \<and> rejects UpdateTask \<longrightarrow>
          complete rejects now url s taskId userId resume remarks =
            (Inl (Rejected UpdateTask), s)) \<and>
       (\<not> rejects UploadResume \<and> \<not> rejects UpdateTask \<and> rejects UpdateCandidate \<longrightarrow>
          complete rejects now url s taskId userId resume remarks =
            (Inl (Rejected UpdateCandidate), s1)) \<and>
       (\<not> rejects UploadResume \<and> \<not> rejects UpdateTask \<and> \<not> rejects UpdateCandidate \<and>
        rejects UpdateEmployee \<longrightarrow>
          complete rejects now url s taskId userId resume remarks =
            (Inl (Rejected UpdateEmployee), s2)) \<and>
       (\<not> rejects UploadResume \<and> \<not> rejects UpdateTask \<and> \<not> rejects UpdateCandidate \<and>
        \<not> rejects UpdateEmployee \<longrightarrow>
          (\<forall>err. update_employee secs userId (employees s) = Inl err \<longrightarrow>
             complete rejects now url s taskId userId resume remarks = (Inl err, s2)) \<and>
          (\<forall>es. update_employee secs userId (employees s) = Inr es \<longrightarrow>
             list_all2 (\<lambda>old new.
                 if e_id old = userId
                 then e_status new = Available \<and> e_current_task_id new = None \<and>
                      e_tasks_completed new = e_tasks_completed old + 1 \<and>
                      new_average old secs = Inr (e_average_completion_time_seconds new) \<and>
                      e_warnings new = e_warnings old \<and> e_violations new = e_violations old
                 else new = old) (employees s) es \<and>
             (rejects SelectJob \<longrightarrow>
                complete rejects now url s taskId userId resume remarks =
                  (Inl (Rejected SelectJob), s2\<lparr>employees := es\<rparr>)) \<and>
             (\<not> rejects SelectJob \<and> t_job_id task \<in> set (jobs s) \<and>
              rejects UpsertApplication \<longrightarrow>
                complete rejects now url s taskId userId resume remarks =
                  (Inl (Rejected UpsertApplication), s2\<lparr>employees := es\<rparr>)) \<and>
             (\<not> rejects SelectJob \<and> t_job_id task \<in> set (jobs s) \<and>
              \<not> rejects UpsertApplication \<longrightarrow>
                (\<exists>s4. ats_tasks s4 = ats_tasks s1 \<and> candidates s4 = candidates s2 \<and>
                      employees s4 = es \<and>
                      (\<exists>a\<in>set (applications s4).
                          a_candidate_id a = t_candidate_id task \<and>
                          a_job_id a = t_job_id task \<and>
                          a_resume_used_url a = Some url \<and> a_status a = ''submitted'' \<and>
                          a_submitted_at a = Some now) \<and>
                      complete rejects now url s taskId userId resume remarks =
                        (if rejects PublishCompleted then Inl (Rejected PublishCompleted)
                         else Inr \<lparr>r_newResumeUrl = url, r_completionTimeSeconds = secs\<rparr>,
                         s4))) \<and>
             (\<not> rejects SelectJob \<and> t_job_id task \<notin> set (jobs s) \<longrightarrow>
                complete rejects now url s taskId userId resume remarks =
                  (if rejects PublishCompleted then Inl (Rejected PublishCompleted)
                   else Inr \<lparr>r_newResumeUrl = url, r_completionTimeSeconds = secs\<rparr>,
                   s2\<lparr>employees := es\<rparr>)))) \<and>
       (0 \<le> secs \<and> secs \<le> 2147483647 \<and>
        (\<forall>e\<in>set (employees s). e_id e = userId \<longrightarrow>
           0 \<le> e_tasks_completed e \<and> e_tasks_completed e < 2147483647 \<and>
           0 \<le> e_average_completion_time_seconds e \<and>
           e_average_completion_time_seconds e * e_tasks_completed e + secs
             \<le> 2147483647) \<longrightarrow>
          (\<exists>es. update_employee secs userId (employees s) = Inr es))))"
  unfolding Let_def
proof (intro conjI impI allI, goal_cases)
  case 1 then show ?case by (simp add: complete_def)
next
  case 2 then show ?case by (simp add: complete_def)
next
  case 3 then show ?case by (simp add: complete_def)
next
  case 4 then show ?case by (simp add: complete_def)
next
  case 5 then show ?case by (simp add: complete_def Let_def)
next
  case 6 then show ?case by (simp add: complete_def Let_def update_task_completed_def)
next
  case 7 then show ?case
    by (simp add: complete_def Let_def update_task_completed_def update_candidate_resume_def)
next
  case 8 then show ?case
    by (simp add: complete_def Let_def update_task_completed_def update_candidate_resume_def)
next
  case 9 then show ?case by (intro update_employee_rel) simp
next
  case 10 then show ?case
    by (simp add: complete_def Let_def update_task_completed_def update_candidate_resume_def)
next
  case 11 then show ?case
    by (simp add: complete_def Let_def update_task_completed_def update_candidate_resume_def)
next
  case (12 es)
  let ?s3 = "s\<lparr>ats_tasks :=
                 map (\<lambda>t. if t_id t = taskId
                           then t\<lparr>t_status := Completed, t_completed_at := Some now,
                                  t_new_resume_url := Some url, t_notes := remarks\<rparr>
                           else t) (ats_tasks s),
              candidates :=
                  map (\<lambda>c. if c_id c = t_candidate_id task
                            then c\<lparr>c_resume_url := Some url\<rparr> else c) (candidates s),
              employees := es\<rparr>"
  let ?s4 = "upsert_application now url taskId task ?s3"
  have "complete rejects now url s taskId userId resume remarks =
      (if rejects PublishCompleted then Inl (Rejected PublishCompleted)
       else Inr \<lparr>r_newResumeUrl = url,
                 r_completionTimeSeconds =
                   (now - (case t_assigned_at task of
                             Some a \<Rightarrow> a | None \<Rightarrow> t_created_at task)) div 1000\<rparr>, ?s4)"
    using 12
    by (simp add: complete_def Let_def update_task_completed_def update_candidate_resume_def)
  moreover note upsert_application_present [of now url taskId task ?s3]
  moreover have "ats_tasks ?s4 = map (\<lambda>t. if t_id t = taskId
                           then t\<lparr>t_status := Completed, t_completed_at := Some now,
                                  t_new_resume_url := Some url, t_notes := remarks\<rparr>
                           else t) (ats_tasks s)" "candidates ?s4 = map (\<lambda>c. if c_id c = t_candidate_id task
                            then c\<lparr>c_resume_url := Some url\<rparr> else c) (candidates s)"
    "employees ?s4 = es"
    by (simp_all add: upsert_application_frame)
  ultimately show ?case by (intro exI [of _ ?s4]) simp
next
  case 13 then show ?case
    by (simp add: complete_def Let_def update_task_completed_def update_candidate_resume_def)
next
  case 14 then show ?case by (intro update_employee_ok) simp_all
qed

lemmas complete_defs =
  complete_def owned_open_tasks_def update_task_completed_def update_candidate_resume_def
  update_employee_def update_employee_row_def new_average_def sql_div_def in_int4_def
  upsert_application_def Let_def

text \<open>
  One run for every point where the handler stops, on the example store: the calls
  rejected one at a time, the employee row at 2147483647 completed tasks, the run in
  which no call is rejected, and that run with the job missing.
\<close>

theorem C9_complete_steps_witness:
  "complete (ex_accepts) 600000 ''u2''
       (ex_store) ''t1'' ''e1'' False (Some ''done'') =
     (Inl (AppError 400),
      ex_store) \<and>
   complete (\<lambda>c. c = SelectTask) 600000 ''u2''
       (ex_store) ''t1'' ''e1'' True (Some ''done'') =
     (Inl (Rejected SelectTask),
      ex_store) \<and>
   complete (ex_accepts) 600000 ''u2''
       (ex_store) ''t1'' ''e2'' True (Some ''done'') =
     (Inl (AppError 404),
      ex_store) \<and>
   complete (\<lambda>c. c = UploadResume) 600000 ''u2''
       (ex_store) ''t1'' ''e1'' True (Some ''done'') =
     (Inl (Rejected UploadResume),
      ex_store) \<and>
   complete (\<lambda>c. c = UpdateTask) 600000 ''u2''
       (ex_store) ''t1'' ''e1'' True (Some ''done'') =
     (Inl (Rejected UpdateTask),
      ex_store) \<and>
   complete (\<lambda>c. c = UpdateCandidate) 600000 ''u2''
       (ex_store) ''t1'' ''e1'' True (Some ''done'') =
     (Inl (Rejected UpdateCandidate),
      ex_store\<lparr>ats_tasks := [ex_task\<lparr>t_status := Completed, t_completed_at := Some 600000,
                        t_new_resume_url := Some ''u2'', t_notes := Some ''done''\<rparr>]\<rparr>) \<and>
   complete (ex_rejects) 600000 ''u2''
       (ex_store) ''t1'' ''e1'' True (Some ''done'') =
     (Inl (Rejected UpdateEmployee),
      ex_store\<lparr>ats_tasks := [ex_task\<lparr>t_status := Completed, t_completed_at := Some 600000,
                        t_new_resume_url := Some ''u2'', t_notes := Some ''done''\<rparr>],
        candidates := [\<lparr>c_id = ''c1'', c_resume_url = Some ''u2''\<rparr>]\<rparr>) \<and>
   complete (ex_accepts) 600000 ''u2''
       (ex_store\<lparr>employees := [ex_employee\<lparr>e_tasks_completed := 2147483647\<rparr>]\<rparr>) ''t1'' ''e1'' True (Some ''done'') =
     (Inl IntegerOutOfRange,
      ex_store\<lparr>employees := [ex_employee\<lparr>e_tasks_completed := 2147483647\<rparr>],
        ats_tasks := [ex_task\<lparr>t_status := Completed, t_completed_at := Some 600000,
                        t_new_resume_url := Some ''u2'', t_notes := Some ''done''\<rparr>],
        candidates := [\<lparr>c_id = ''c1'', c_resume_url = Some ''u2''\<rparr>]\<rparr>) \<and>
   complete (\<lambda>c. c = SelectJob) 600000 ''u2''
       (ex_store) ''t1'' ''e1'' True (Some ''done'') =
     (Inl (Rejected SelectJob),
      ex_store\<lparr>ats_tasks := [ex_task\<lparr>t_status := Completed, t_completed_at := Some 600000,
                        t_new_resume_url := Some ''u2'', t_notes := Some ''done''\<rparr>],
        candidates := [\<lparr>c_id = ''c1'', c_resume_url = Some ''u2''\<rparr>],
        employees := [ex_employee\<lparr>e_status := Available, e_current_task_id := None,
                        e_tasks_completed := 6,
                        e_average_completion_time_seconds := 600\<rparr>]\<rparr>) \<and>
   complete (\<lambda>c. c = UpsertApplication) 600000 ''u2''
       (ex_store) ''t1'' ''e1'' True (Some ''done'') =
     (Inl (Rejected UpsertApplication),
      ex_store\<lparr>ats_tasks := [ex_task\<lparr>t_status := Completed, t_completed_at := Some 600000,
                        t_new_resume_url := Some ''u2'', t_notes := Some ''done''\<rparr>],
        candidates := [\<lparr>c_id = ''c1'', c_resume_url = Some ''u2''\<rparr>],
        employees := [ex_employee\<lparr>e_status := Available, e_current_task_id := None,
                        e_tasks_completed := 6,
                        e_average_completion_time_seconds := 600\<rparr>]\<rparr>) \<and>
   complete (\<lambda>c. c = PublishCompleted) 600000 ''u2''
       (ex_store) ''t1'' ''e1'' True (Some ''done'') =
     (Inl (Rejected PublishCompleted),
      ex_store\<lparr>ats_tasks := [ex_task\<lparr>t_status := Completed, t_completed_at := Some 600000,
                        t_new_resume_url := Some ''u2'', t_notes := Some ''done''\<rparr>],
        candidates := [\<lparr>c_id = ''c1'', c_resume_url = Some ''u2''\<rparr>],
        employees := [ex_employee\<lparr>e_status := Available, e_current_task_id := None,
                        e_tasks_completed := 6,
                        e_average_completion_time_seconds := 600\<rparr>],
        applications := [\<lparr>a_candidate_id = ''c1'', a_job_id = ''j1'', a_task_id = Some ''t1'',
                          a_resume_used_url = Some ''u2'', a_ats_score_at_submission = 82.5,
                          a_status = ''submitted'', a_auto_submitted = False,
                          a_submitted_at = Some 600000\<rparr>]\<rparr>) \<and>
   complete (ex_accepts) 600000 ''u2''
       (ex_store) ''t1'' ''e1'' True (Some ''done'') =
     (Inr \<lparr>r_newResumeUrl = ''u2'', r_completionTimeSeconds = 600\<rparr>,
      ex_store\<lparr>ats_tasks := [ex_task\<lparr>t_status := Completed, t_completed_at := Some 600000,
                        t_new_resume_url := Some ''u2'', t_notes := Some ''done''\<rparr>],
        candidates := [\<lparr>c_id = ''c1'', c_resume_url = Some ''u2''\<rparr>],
        employees := [ex_employee\<lparr>e_status := Available, e_current_task_id := None,
                        e_tasks_completed := 6,
                        e_average_completion_time_seconds := 600\<rparr>],
        applications := [\<lparr>a_candidate_id = ''c1'', a_job_id = ''j1'', a_task_id = Some ''t1'',
                          a_resume_used_url = Some ''u2'', a_ats_score_at_submission = 82.5,
                          a_status = ''submitted'', a_auto_submitted = False,
                          a_submitted_at = Some 600000\<rparr>]\<rparr>) \<and>
   complete (ex_accepts) 600000 ''u2''
       (ex_store\<lparr>jobs := []\<rparr>) ''t1'' ''e1'' True (Some ''done'') =
     (Inr \<lparr>r_newResumeUrl = ''u2'', r_completionTimeSeconds = 600\<rparr>,
      ex_store\<lparr>jobs := [],
        ats_tasks := [ex_task\<lparr>t_status := Completed, t_completed_at := Some 600000,
                        t_new_resume_url := Some ''u2'', t_notes := Some ''done''\<rparr>],
        candidates := [\<lparr>c_id = ''c1'', c_resume_url = Some ''u2''\<rparr>],
        employees := [ex_employee\<lparr>e_status := Available, e_current_task_id := None,
                        e_tasks_completed := 6,
                        e_average_completion_time_seconds := 600\<rparr>]\<rparr>)"
proof -
  have a: "complete (ex_accepts) 600000 ''u2''
       (ex_store) ''t1'' ''e1'' False (Some ''done'') =
     (Inl (AppError 400),
      ex_store)"
    using
    C9_complete_steps [where resume = False and rejects = "ex_accepts" and now = 600000
      and url = "''u2''" and s = "ex_store" and taskId = "''t1''" and userId = "''e1''"
      and remarks = "Some ''done''" and task = ex_task and rest = "[]"]
    by (simp add: complete_defs ex_store_def ex_task_def ex_employee_def
        ex_accepts_def ex_rejects_def)
  have b: "complete (\<lambda>c. c = SelectTask) 600000 ''u2''
       (ex_store) ''t1'' ''e1'' True (Some ''done'') =
     (Inl (Rejected SelectTask),
      ex_store)"
    using
    C9_complete_steps [where resume = True and rejects = "\<lambda>c. c = SelectTask" and now = 600000
      and url = "''u2''" and s = "ex_store" and taskId = "''t1''" and userId = "''e1''"
      and remarks = "Some ''done''" and task = ex_task and rest = "[]"]
    by (simp add: complete_defs ex_store_def ex_task_def ex_employee_def
        ex_accepts_def ex_rejects_def)
  have c: "complete (ex_accepts) 600000 ''u2''
       (ex_store) ''t1'' ''e2'' True (Some ''done'') =
     (Inl (AppError 404),
      ex_store)"
    using
    C9_complete_steps [where resume = True and rejects = "ex_accepts" and now = 600000
      and url = "''u2''" and s = "ex_store" and taskId = "''t1''" and userId = "''e2''"
      and remarks = "Some ''done''" and task = ex_task and rest = "[]"]
    by (simp add: complete_defs ex_store_def ex_task_def ex_employee_def
        ex_accepts_def ex_rejects_def)
  have d: "complete (\<lambda>c. c = UploadResume) 600000 ''u2''
       (ex_store) ''t1'' ''e1'' True (Some ''done'') =
     (Inl (Rejected UploadResume),
      ex_store)"
    using
    C9_complete_steps [where resume = True and rejects = "\<lambda>c. c = UploadResume" and now = 600000
      and url = "''u2''" and s = "ex_store" and taskId = "''t1''" and userId = "''e1''"
      and remarks = "Some ''done''" and task = ex_task and rest = "[]"]
    by (simp add: complete_defs ex_store_def ex_task_def ex_employee_def
        ex_accepts_def ex_rejects_def)
  have e: "complete (\<lambda>c. c = UpdateTask) 600000 ''u2''
       (ex_store) ''t1'' ''e1'' True (Some ''done'') =
     (Inl (Rejected UpdateTask),
      ex_store)"
    using
    C9_complete_steps [where resume = True and rejects = "\<lambda>c. c = UpdateTask" and now = 600000
      and url = "''u2''" and s = "ex_store" and taskId = "''t1''" and userId = "''e1''"
      and remarks = "Some ''done''" and task = ex_task and rest = "[]"]
    by (simp add: complete_defs ex_store_def ex_task_def ex_employee_def
        ex_accepts_def ex_rejects_def)
  have f: "complete (\<lambda>c. c = UpdateCandidate) 600000 ''u2''
       (ex_store) ''t1'' ''e1'' True (Some ''done'') =
     (Inl (Rejected UpdateCandidate),
      ex_store\<lparr>ats_tasks := [ex_task\<lparr>t_status := Completed, t_completed_at := Some 600000,
                        t_new_resume_url := Some ''u2'', t_notes := Some ''done''\<rparr>]\<rparr>)"
    using
    C9_complete_steps [where resume = True and rejects = "\<lambda>c. c = UpdateCandidate" and now = 600000
      and url = "''u2''" and s = "ex_store" and taskId = "''t1''" and userId = "''e1''"
      and remarks = "Some ''done''" and task = ex_task and rest = "[]"]
    by (simp add: complete_defs ex_store_def ex_task_def ex_employee_def
        ex_accepts_def ex_rejects_def)
  have g: "complete (ex_rejects) 600000 ''u2''
       (ex_store) ''t1'' ''e1'' True (Some ''done'') =
     (Inl (Rejected UpdateEmployee),
      ex_store\<lparr>ats_tasks := [ex_task\<lparr>t_status := Completed, t_completed_at := Some 600000,
                        t_new_resume_url := Some ''u2'', t_notes := Some ''done''\<rparr>],
        candidates := [\<lparr>c_id = ''c1'', c_resume_url = Some ''u2''\<rparr>]\<rparr>)"
    using
    C9_complete_steps [where resume = True and rejects = "ex_rejects" and now = 600000
      and url = "''u2''" and s = "ex_store" and taskId = "''t1''" and userId = "''e1''"
      and remarks = "Some ''done''" and task = ex_task and rest = "[]"]
    by (simp add: complete_defs ex_store_def ex_task_def ex_employee_def
        ex_accepts_def ex_rejects_def)
  have h: "complete (ex_accepts) 600000 ''u2''
       (ex_store\<lparr>employees := [ex_employee\<lparr>e_tasks_completed := 2147483647\<rparr>]\<rparr>) ''t1'' ''e1'' True (Some ''done'') =
     (Inl IntegerOutOfRange,
      ex_store\<lparr>employees := [ex_employee\<lparr>e_tasks_completed := 2147483647\<rparr>],
        ats_tasks := [ex_task\<lparr>t_status := Completed, t_completed_at := Some 600000,
                        t_new_resume_url := Some ''u2'', t_notes := Some ''done''\<rparr>],
        candidates := [\<lparr>c_id = ''c1'', c_resume_url = Some ''u2''\<rparr>]\<rparr>)"
    using
    C9_complete_steps [where resume = True and rejects = "ex_accepts" and now = 600000
      and url = "''u2''" and s = "ex_store\<lparr>employees := [ex_employee\<lparr>e_tasks_completed := 2147483647\<rparr>]\<rparr>" and taskId = "''t1''" and userId = "''e1''"
      and remarks = "Some ''done''" and task = ex_task and rest = "[]"]
    by (simp add: complete_defs ex_store_def ex_task_def ex_employee_def
        ex_accepts_def ex_rejects_def)
  have i: "complete (\<lambda>c. c = SelectJob) 600000 ''u2''
       (ex_store) ''t1'' ''e1'' True (Some ''done'') =
     (Inl (Rejected SelectJob),
      ex_store\<lparr>ats_tasks := [ex_task\<lparr>t_status := Completed, t_completed_at := Some 600000,
                        t_new_resume_url := Some ''u2'', t_notes := Some ''done''\<rparr>],
        candidates := [\<lparr>c_id = ''c1'', c_resume_url = Some ''u2''\<rparr>],
        employees := [ex_employee\<lparr>e_status := Available, e_current_task_id := None,
                        e_tasks_completed := 6,
                        e_average_completion_time_seconds := 600\<rparr>]\<rparr>)"
    using
    C9_complete_steps [where resume = True and rejects = "\<lambda>c. c = SelectJob" and now = 600000
      and url = "''u2''" and s = "ex_store" and taskId = "''t1''" and userId = "''e1''"
      and remarks = "Some ''done''" and task = ex_task and rest = "[]"]
    by (simp add: complete_defs ex_store_def ex_task_def ex_employee_def
        ex_accepts_def ex_rejects_def)
  have j: "complete (\<lambda>c. c = UpsertApplication) 600000 ''u2''
       (ex_store) ''t1'' ''e1'' True (Some ''done'') =
     (Inl (Rejected UpsertApplication),
      ex_store\<lparr>ats_tasks := [ex_task\<lparr>t_status := Completed, t_completed_at := Some 600000,
                        t_new_resume_url := Some ''u2'', t_notes := Some ''done''\<rparr>],
        candidates := [\<lparr>c_id = ''c1'', c_resume_url = Some ''u2''\<rparr>],
        employees := [ex_employee\<lparr>e_status := Available, e_current_task_id := None,
                        e_tasks_completed := 6,
                        e_average_completion_time_seconds := 600\<rparr>]\<rparr>)"
    using
    C9_complete_steps [where resume = True and rejects = "\<lambda>c. c = UpsertApplication" and now = 600000
      and url = "''u2''" and s = "ex_store" and taskId = "''t1''" and userId = "''e1''"
      and remarks = "Some ''done''" and task = ex_task and rest = "[]"]
    by (simp add: complete_defs ex_store_def ex_task_def ex_employee_def
        ex_accepts_def ex_rejects_def)
  have k: "complete (\<lambda>c. c = PublishCompleted) 600000 ''u2''
       (ex_store) ''t1'' ''e1'' True (Some ''done'') =
     (Inl (Rejected PublishCompleted),
      ex_store\<lparr>ats_tasks := [ex_task\<lparr>t_status := Completed, t_completed_at := Some 600000,
                        t_new_resume_url := Some ''u2'', t_notes := Some ''done''\<rparr>],
        candidates := [\<lparr>c_id = ''c1'', c_resume_url = Some ''u2''\<rparr>],
        employees := [ex_employee\<lparr>e_status := Available, e_current_task_id := None,
                        e_tasks_completed := 6,
                        e_average_completion_time_seconds := 600\<rparr>],
        applications := [\<lparr>a_candidate_id = ''c1'', a_job_id = ''j1'', a_task_id = Some ''t1'',
                          a_resume_used_url = Some ''u2'', a_ats_score_at_submission = 82.5,
                          a_status = ''submitted'', a_auto_submitted = False,
                          a_submitted_at = Some 600000\<rparr>]\<rparr>)"
    using
    C9_complete_steps [where resume = True and rejects = "\<lambda>c. c = PublishCompleted" and now = 600000
      and url = "''u2''" and s = "ex_store" and taskId = "''t1''" and userId = "''e1''"
      and remarks = "Some ''done''" and task = ex_task and rest = "[]"]
    by (simp add: complete_defs ex_store_def ex_task_def ex_employee_def
        ex_accepts_def ex_rejects_def)
  have l: "complete (ex_accepts) 600000 ''u2''
       (ex_store) ''t1'' ''e1'' True (Some ''done'') =
     (Inr \<lparr>r_newResumeUrl = ''u2'', r_completionTimeSeconds = 600\<rparr>,
      ex_store\<lparr>ats_tasks := [ex_task\<lparr>t_status := Completed, t_completed_at := Some 600000,
                        t_new_resume_url := Some ''u2'', t_notes := Some ''done''\<rparr>],
        candidates := [\<lparr>c_id = ''c1'', c_resume_url = Some ''u2''\<rparr>],
        employees := [ex_employee\<lparr>e_status := Available, e_current_task_id := None,
                        e_tasks_completed := 6,
                        e_average_completion_time_seconds := 600\<rparr>],
        applications := [\<lparr>a_candidate_id = ''c1'', a_job_id = ''j1'', a_task_id = Some ''t1'',
                          a_resume_used_url = Some ''u2'', a_ats_score_at_submission = 82.5,
                          a_status = ''submitted'', a_auto_submitted = False,
                          a_submitted_at = Some 600000\<rparr>]\<rparr>)"
    using
    C9_complete_steps [where resume = True and rejects = "ex_accepts" and now = 600000
      and url = "''u2''" and s = "ex_store" and taskId = "''t1''" and userId = "''e1''"
      and remarks = "Some ''done''" and task = ex_task and rest = "[]"]
    by (simp add: complete_defs ex_store_def ex_task_def ex_employee_def
        ex_accepts_def ex_rejects_def)
  have m: "complete (ex_accepts) 600000 ''u2''
       (ex_store\<lparr>jobs := []\<rparr>) ''t1'' ''e1'' True (Some ''done'') =
     (Inr \<lparr>r_newResumeUrl = ''u2'', r_completionTimeSeconds = 600\<rparr>,
      ex_store\<lparr>jobs := [],
        ats_tasks := [ex_task\<lparr>t_status := Completed, t_completed_at := Some 600000,
                        t_new_resume_url := Some ''u2'', t_notes := Some ''done''\<rparr>],
        candidates := [\<lparr>c_id = ''c1'', c_resume_url = Some ''u2''\<rparr>],
        employees := [ex_employee\<lparr>e_status := Available, e_current_task_id := None,
                        e_tasks_completed := 6,
                        e_average_completion_time_seconds := 600\<rparr>]\<rparr>)"
    using
    C9_complete_steps [where resume = True and rejects = "ex_accepts" and now = 600000
      and url = "''u2''" and s = "ex_store\<lparr>jobs := []\<rparr>" and taskId = "''t1''" and userId = "''e1''"
      and remarks = "Some ''done''" and task = ex_task and rest = "[]"]
    by (simp add: complete_defs ex_store_def ex_task_def ex_employee_def
        ex_accepts_def ex_rejects_def)
  from a b c d e f g h i j k l m show ?thesis by (intro conjI)
qed

text \<open>
  The claim fails where the employee update is rejected: the handler answers with the
  error, and the store is not the one it started from. The task is completed and the
  candidate has the new resume, while the employee is still busy with the task and no
  application exists.
\<close>

theorem C9_partial_completion_counterexample:
  "fst (complete ex_rejects 600000 ''u2'' ex_store ''t1'' ''e1'' True None) =
     Inl (Rejected UpdateEmployee) \<and>
   map t_status (ats_tasks
       (snd (complete ex_rejects 600000 ''u2'' ex_store ''t1'' ''e1'' True None))) =
     [Completed] \<and>
   map c_resume_url (candidates
       (snd (complete ex_rejects 600000 ''u2'' ex_store ''t1'' ''e1'' True None))) =
     [Some ''u2''] \<and>
   employees (snd (complete ex_rejects 600000 ''u2'' ex_store ''t1'' ''e1'' True None)) =
     [ex_employee] \<and>
   e_status ex_employee = Busy \<and> e_current_task_id ex_employee = Some ''t1'' \<and>
   applications (snd (complete ex_rejects 600000 ''u2'' ex_store ''t1'' ''e1'' True None)) = []"
  by (simp add: complete_defs ex_store_def ex_task_def ex_employee_def ex_rejects_def)

end
